theory Spec2Isabelle
  imports Main "HOL-Library.Word"
begin

section \<open>The byte buffer\<close>

text \<open>
  Modelled from the spec: the ByteBuffer of the package \<^verbatim>\<open>bytebuffer\<close>, an external
  dependency that is not among the sources; it is the Cursor of section 4.1 of the
  specification. The reader keeps its input in \<^verbatim>\<open>this.buf\<close>, created by
  \<^verbatim>\<open>ByteBuffer.wrap(source)\<close>, and only ever reads it at the current position: unsigned
  big-endian reads of 1, 2 and 4 bytes, each advancing the position by as much. A read
  that asks for more bytes than remain fails (the specification's TruncatedInput; the
  package throws a RangeError) and leaves the position where it was. The model's cursor
  is the unread part of the buffer.

  A JavaScript exception is a value \<open>Inl e\<close>. Every decoder returns its outcome
  together with the cursor it leaves behind, also when it throws: the buffer is a field
  of the reader object and keeps its position after an exception. The errors are the
  TypeErrors (with a message), the RangeError of the buffer, the three \<^verbatim>\<open>Error\<close>s the
  source throws (\<^verbatim>\<open>'Invalid MAGIC value'\<close>, \<^verbatim>\<open>'Unexpected tag: ' + tag\<close>, thrown for
  a constant-pool tag and for an element-value tag alike, and
  \<^verbatim>\<open>'Unexpected target_type: ' + target_type\<close>), and whatever reading a file throws.
\<close>

type_synonym byte = "8 word"
type_synonym cursor = "byte list"

datatype error =
    TypeError string
  | RangeError
  | Error_Invalid_MAGIC
  | Error_Unexpected_tag nat
  | Error_Unexpected_target_type nat
  | Error_fs string

definition readUint8 :: "cursor \<Rightarrow> (error + nat) \<times> cursor" where
  "readUint8 c = (case c of
      b # c' \<Rightarrow> (Inr (unat b), c')
    | _ \<Rightarrow> (Inl RangeError, c))"

definition readUint16 :: "cursor \<Rightarrow> (error + nat) \<times> cursor" where
  "readUint16 c = (case c of
      b0 # b1 # c' \<Rightarrow> (Inr (unat b0 * 256 + unat b1), c')
    | _ \<Rightarrow> (Inl RangeError, c))"

definition readUint32 :: "cursor \<Rightarrow> (error + nat) \<times> cursor" where
  "readUint32 c = (case c of
      b0 # b1 # b2 # b3 # c' \<Rightarrow>
        (Inr (unat b0 * 16777216 + unat b1 * 65536 + unat b2 * 256 + unat b3), c')
    | _ \<Rightarrow> (Inl RangeError, c))"

text \<open>
  Sequencing: run \<open>m\<close>; if it throws, the exception propagates with the state it
  left; otherwise continue with its value.
\<close>

definition bind :: "('s \<Rightarrow> (error + 'a) \<times> 's) \<Rightarrow> ('a \<Rightarrow> 's \<Rightarrow> (error + 'b) \<times> 's)
    \<Rightarrow> 's \<Rightarrow> (error + 'b) \<times> 's" where
  "bind m f s = (case m s of
      (Inl e, s') \<Rightarrow> (Inl e, s')
    | (Inr x, s') \<Rightarrow> f x s')"

definition ret :: "'a \<Rightarrow> 's \<Rightarrow> (error + 'a) \<times> 's" where
  "ret x s = (Inr x, s)"

definition throw :: "error \<Rightarrow> 's \<Rightarrow> (error + 'a) \<times> 's" where
  "throw e s = (Inl e, s)"

text \<open>
  The loop \<^verbatim>\<open>while (n-- > 0) { arr.push(f()) }\<close> for a count \<open>n\<close> read from the
  stream (so a natural number). Its state is the array being filled and the cursor; when
  \<open>f\<close> throws, the loop stops with the array as filled so far.
\<close>

primrec while_push :: "nat \<Rightarrow> (cursor \<Rightarrow> (error + 'a) \<times> cursor) \<Rightarrow> 'a list \<times> cursor
    \<Rightarrow> (error + unit) \<times> 'a list \<times> cursor" where
  "while_push 0 f s = (Inr (), s)"
| "while_push (Suc n) f s = (case f (snd s) of
      (Inl e, c') \<Rightarrow> (Inl e, (fst s, c'))
    | (Inr x, c') \<Rightarrow> while_push n f (fst s @ [x], c'))"

text \<open>\<^verbatim>\<open>arr = []; while (n-- > 0) { arr.push(f()) }\<close>, then the array is used.\<close>

definition collect :: "nat \<Rightarrow> (cursor \<Rightarrow> (error + 'a) \<times> cursor) \<Rightarrow> cursor
    \<Rightarrow> (error + 'a list) \<times> cursor" where
  "collect n f c = (case while_push n f ([], c) of
      (Inl e, (arr, c')) \<Rightarrow> (Inl e, c')
    | (Inr u, (arr, c')) \<Rightarrow> (Inr arr, c'))"

section \<open>Verification type info and stack map frames\<close>

text \<open>
  \<^verbatim>\<open>_readVerificationTypeInfo\<close>. The object has the property \<^verbatim>\<open>tag\<close>, and
  \<^verbatim>\<open>cpool_index\<close> or \<^verbatim>\<open>offset\<close> only when the tag is 7 or 8; an absent
  property is \<open>None\<close>.
\<close>

record verification_type_info =
  vti_tag :: nat
  cpool_index :: "nat option"
  vti_offset :: "nat option"

definition readVerificationTypeInfo :: "cursor \<Rightarrow> (error + verification_type_info) \<times> cursor" where
  "readVerificationTypeInfo =
     bind readUint8 (\<lambda>tag.
       if tag = 7 then
         bind readUint16 (\<lambda>v. ret \<lparr>vti_tag = tag, cpool_index = Some v, vti_offset = None\<rparr>)
       else if tag = 8 then
         bind readUint16 (\<lambda>v. ret \<lparr>vti_tag = tag, cpool_index = None, vti_offset = Some v\<rparr>)
       else ret \<lparr>vti_tag = tag, cpool_index = None, vti_offset = None\<rparr>)"

text \<open>
  One entry of the \<^verbatim>\<open>StackMapTable\<close> attribute: the body of the loop in
  \<^verbatim>\<open>_readAttributeInfo\<close>, case \<^verbatim>\<open>'StackMapTable'\<close>. The frame object always has
  \<^verbatim>\<open>frame_type\<close>; the other properties exist only on the branches that assign them.
\<close>

record stack_map_frame =
  frame_type :: nat
  offset_delta :: "nat option"
  number_of_locals :: "nat option"
  locals :: "verification_type_info list option"
  number_of_stack_items :: "nat option"
  stack :: "verification_type_info list option"

definition new_stack_map_frame :: "nat \<Rightarrow> stack_map_frame" where
  "new_stack_map_frame ft = \<lparr>frame_type = ft, offset_delta = None, number_of_locals = None,
     locals = None, number_of_stack_items = None, stack = None\<rparr>"

definition readStackMapTable_entry :: "cursor \<Rightarrow> (error + stack_map_frame) \<times> cursor" where
  "readStackMapTable_entry =
     bind readUint8 (\<lambda>ft.
       if 64 \<le> ft \<and> ft \<le> 127 then
         bind readVerificationTypeInfo (\<lambda>v.
         ret ((new_stack_map_frame ft)\<lparr>stack := Some [v]\<rparr>))
       else if ft = 247 then
         bind readUint16 (\<lambda>od.
         bind readVerificationTypeInfo (\<lambda>v.
         ret ((new_stack_map_frame ft)\<lparr>offset_delta := Some od, stack := Some [v]\<rparr>)))
       else if 248 \<le> ft \<and> ft \<le> 251 then
         bind readUint16 (\<lambda>od.
         ret ((new_stack_map_frame ft)\<lparr>offset_delta := Some od\<rparr>))
       else if 252 \<le> ft \<and> ft \<le> 254 then
         bind readUint16 (\<lambda>od.
         bind (collect (ft - 251) readVerificationTypeInfo) (\<lambda>ls.
         ret ((new_stack_map_frame ft)\<lparr>offset_delta := Some od, locals := Some ls\<rparr>)))
       else if ft = 255 then
         bind readUint16 (\<lambda>od.
         bind readUint16 (\<lambda>nl.
         bind (collect nl readVerificationTypeInfo) (\<lambda>ls.
         bind readUint16 (\<lambda>ns.
         bind (collect ns readVerificationTypeInfo) (\<lambda>st.
         ret ((new_stack_map_frame ft)\<lparr>offset_delta := Some od, number_of_locals := Some nl,
                locals := Some ls, number_of_stack_items := Some ns, stack := Some st\<rparr>))))))
       else ret (new_stack_map_frame ft))"

section \<open>Basic facts about the buffer\<close>

lemma readUint8_Cons: "readUint8 (b # c) = (Inr (unat b), c)"
  by (simp add: readUint8_def)


lemma readUint16_Cons: "readUint16 (b0 # b1 # c) = (Inr (unat b0 * 256 + unat b1), c)"
  by (simp add: readUint16_def)

lemma readUint32_Cons:
  "readUint32 (b0 # b1 # b2 # b3 # c) =
     (Inr (unat b0 * 16777216 + unat b1 * 65536 + unat b2 * 256 + unat b3), c)"
  by (simp add: readUint32_def)

section \<open>Claims about verification type info and stack map frames\<close>

text \<open>
  C9: reading one verification-type-info record is total over the tag byte. For tag 7 it
  reads exactly one following u16, stored as \<open>cpool_index\<close>; for tag 8 exactly one
  following u16, stored as \<open>offset\<close>; for every other tag byte, also above 8, it
  consumes nothing further and returns a record holding only the tag, with no error.
\<close>

theorem readVerificationTypeInfo_total:
  "readVerificationTypeInfo (7 # b0 # b1 # rest) =
     (Inr \<lparr>vti_tag = 7, cpool_index = Some (unat b0 * 256 + unat b1), vti_offset = None\<rparr>, rest)
   \<and> readVerificationTypeInfo (8 # b0 # b1 # rest) =
     (Inr \<lparr>vti_tag = 8, cpool_index = None, vti_offset = Some (unat b0 * 256 + unat b1)\<rparr>, rest)
   \<and> (t \<noteq> 7 \<and> t \<noteq> 8 \<longrightarrow>
        readVerificationTypeInfo (t # rest) =
          (Inr \<lparr>vti_tag = unat t, cpool_index = None, vti_offset = None\<rparr>, rest))"
  by (simp add: readVerificationTypeInfo_def bind_def ret_def readUint8_Cons readUint16_Cons
      word_unat_eq_iff)

theorem readVerificationTypeInfo_total_witness:
  "(200 :: byte) \<noteq> 7 \<and> (200 :: byte) \<noteq> 8
   \<and> readVerificationTypeInfo [200, 1, 2] =
        (Inr \<lparr>vti_tag = 200, cpool_index = None, vti_offset = None\<rparr>, [1, 2])
   \<and> readVerificationTypeInfo [7, 1, 2] =
        (Inr \<lparr>vti_tag = 7, cpool_index = Some 258, vti_offset = None\<rparr>, [])"
  using readVerificationTypeInfo_total [of 1 2 "[1, 2]" 200]
    readVerificationTypeInfo_total [of 1 2 "[]" 200]
  by simp

text \<open>
  C1, as the specification states it, fails at the frame byte 200: the source's CHOP range
  is 248 to 250 (with 251, SAME_FRAME_EXTENDED, read the same way), and 200 lies in the
  range 128 to 246 that no branch handles. The entry is then the bare frame and the two
  bytes that follow are left unread.
\<close>

theorem frame_200_not_chop:
  "readStackMapTable_entry [200, 0, 1] =
     (Inr \<lparr>frame_type = 200, offset_delta = None, number_of_locals = None, locals = None,
            number_of_stack_items = None, stack = None\<rparr>, [0, 1])"
  by (simp add: readStackMapTable_entry_def new_stack_map_frame_def bind_def ret_def
      readUint8_Cons)

text \<open>
  C1 (amended): in the current-form stack-map decoder, a frame byte of 5 decodes as the
  shape with no extra fields; a frame byte of 200 also decodes with no extra fields and
  consumes nothing after the frame byte; a frame byte of 248 to 250 decodes as CHOP,
  consuming exactly one following u16 and no verification-type entry; a frame byte of 252
  decodes as APPEND, a u16 offset delta followed by exactly one verification type info.
\<close>

theorem readStackMapTable_entry_shapes:
  "readStackMapTable_entry (5 # rest) =
     (Inr \<lparr>frame_type = 5, offset_delta = None, number_of_locals = None, locals = None,
            number_of_stack_items = None, stack = None\<rparr>, rest)
   \<and> readStackMapTable_entry (200 # rest) =
     (Inr \<lparr>frame_type = 200, offset_delta = None, number_of_locals = None, locals = None,
            number_of_stack_items = None, stack = None\<rparr>, rest)
   \<and> (248 \<le> ft \<and> ft \<le> 250 \<longrightarrow>
        readStackMapTable_entry (ft # b0 # b1 # rest) =
          (Inr \<lparr>frame_type = unat ft, offset_delta = Some (unat b0 * 256 + unat b1),
                 number_of_locals = None, locals = None, number_of_stack_items = None,
                 stack = None\<rparr>, rest))
   \<and> (readVerificationTypeInfo rest = (Inr v, c) \<longrightarrow>
        readStackMapTable_entry (252 # b0 # b1 # rest) =
          (Inr \<lparr>frame_type = 252, offset_delta = Some (unat b0 * 256 + unat b1),
                 number_of_locals = None, locals = Some [v], number_of_stack_items = None,
                 stack = None\<rparr>, c))"
proof (intro conjI impI)
  show "readStackMapTable_entry (5 # rest) =
     (Inr \<lparr>frame_type = 5, offset_delta = None, number_of_locals = None, locals = None,
            number_of_stack_items = None, stack = None\<rparr>, rest)"
    by (simp add: readStackMapTable_entry_def new_stack_map_frame_def bind_def ret_def
        readUint8_Cons)
next
  show "readStackMapTable_entry (200 # rest) =
     (Inr \<lparr>frame_type = 200, offset_delta = None, number_of_locals = None, locals = None,
            number_of_stack_items = None, stack = None\<rparr>, rest)"
    by (simp add: readStackMapTable_entry_def new_stack_map_frame_def bind_def ret_def
        readUint8_Cons)
next
  assume "248 \<le> ft \<and> ft \<le> 250"
  then have "248 \<le> unat ft" and "unat ft \<le> 250"
    by (simp_all add: word_le_nat_alt)
  then show "readStackMapTable_entry (ft # b0 # b1 # rest) =
          (Inr \<lparr>frame_type = unat ft, offset_delta = Some (unat b0 * 256 + unat b1),
                 number_of_locals = None, locals = None, number_of_stack_items = None,
                 stack = None\<rparr>, rest)"
    by (simp add: readStackMapTable_entry_def new_stack_map_frame_def bind_def ret_def
        readUint8_Cons readUint16_Cons)
next
  assume "readVerificationTypeInfo rest = (Inr v, c)"
  then have "collect (Suc 0) readVerificationTypeInfo rest = (Inr [v], c)"
    by (simp add: collect_def)
  then show "readStackMapTable_entry (252 # b0 # b1 # rest) =
          (Inr \<lparr>frame_type = 252, offset_delta = Some (unat b0 * 256 + unat b1),
                 number_of_locals = None, locals = Some [v], number_of_stack_items = None,
                 stack = None\<rparr>, c)"
    by (simp add: readStackMapTable_entry_def new_stack_map_frame_def bind_def ret_def
        readUint8_Cons readUint16_Cons)
qed

theorem readStackMapTable_entry_shapes_witness:
  "(248 :: byte) \<le> 249 \<and> (249 :: byte) \<le> 250
   \<and> readStackMapTable_entry [249, 0, 3, 9] =
        (Inr \<lparr>frame_type = 249, offset_delta = Some 3, number_of_locals = None, locals = None,
               number_of_stack_items = None, stack = None\<rparr>, [9])
   \<and> readVerificationTypeInfo [1, 9] =
        (Inr \<lparr>vti_tag = 1, cpool_index = None, vti_offset = None\<rparr>, [9])
   \<and> readStackMapTable_entry [252, 0, 3, 1, 9] =
        (Inr \<lparr>frame_type = 252, offset_delta = Some 3, number_of_locals = None,
               locals = Some [\<lparr>vti_tag = 1, cpool_index = None, vti_offset = None\<rparr>],
               number_of_stack_items = None, stack = None\<rparr>, [9])"
proof -
  have v: "readVerificationTypeInfo [1, 9] =
        (Inr \<lparr>vti_tag = 1, cpool_index = None, vti_offset = None\<rparr>, [9])"
    by (simp add: readVerificationTypeInfo_def bind_def ret_def readUint8_Cons)
  show ?thesis
    using v readStackMapTable_entry_shapes [of "[9]" 249 0 3]
      readStackMapTable_entry_shapes [of "[1, 9]" 249 0 3
        "\<lparr>vti_tag = 1, cpool_index = None, vti_offset = None\<rparr>" "[9]"]
    by simp
qed

section \<open>The constant pool\<close>

text \<open>
  The module \<^verbatim>\<open>constant-type\<close> (imported as \<^verbatim>\<open>ConstantType\<close>) is not among the
  sources. The reader uses sixteen of its constants, by name; the model takes the table
  as a parameter \<open>CT\<close> that gives each of the sixteen names a number, so every theorem
  below holds whatever numbers the table holds, also when two names share one.
\<close>

record constant_type =
  UTF8 :: nat
  INTEGER :: nat
  FLOAT :: nat
  LONG :: nat
  DOUBLE :: nat
  PACKAGE :: nat
  MODULE :: nat
  CLASS :: nat
  STRING :: nat
  FIELDREF :: nat
  METHODREF :: nat
  INTERFACE_METHODREF :: nat
  NAME_AND_TYPE :: nat
  METHOD_HANDLE :: nat
  METHOD_TYPE :: nat
  INVOKE_DYNAMIC :: nat

text \<open>
  Modelled from the spec: the table of the module \<^verbatim>\<open>constant-type\<close>, which is not
  among the sources. The specification lists the kinds of constant-pool entry (section 3)
  and leaves their integer values out as trivial data; the values here are the tag
  numbers of the class file format that the source cites (JVMS 4.4, with the two
  constants of Java 9 modules). The instance is used for concrete inputs only.
\<close>

definition jvms_ConstantType :: constant_type where
  "jvms_ConstantType = \<lparr>UTF8 = 1, INTEGER = 3, FLOAT = 4, LONG = 5, DOUBLE = 6, PACKAGE = 20,
     MODULE = 19, CLASS = 7, STRING = 8, FIELDREF = 9, METHODREF = 10,
     INTERFACE_METHODREF = 11, NAME_AND_TYPE = 12, METHOD_HANDLE = 15, METHOD_TYPE = 16,
     INVOKE_DYNAMIC = 18\<rparr>"

text \<open>
  A \<^verbatim>\<open>cp_info\<close> object: the tag, and the properties that its case of the switch in
  \<^verbatim>\<open>_readConstantPoolEntry\<close> assigns, in the order of assignment. \<open>CP_Utf8\<close> holds
  \<^verbatim>\<open>length\<close> and \<^verbatim>\<open>bytes\<close>, \<open>CP_Integer_Float\<close> holds \<^verbatim>\<open>bytes\<close> (a number),
  \<open>CP_Long_Double\<close> holds \<^verbatim>\<open>high_bytes\<close> and \<^verbatim>\<open>low_bytes\<close>, \<open>CP_Name_index\<close>
  (package, module, class) holds \<^verbatim>\<open>name_index\<close>, \<open>CP_String\<close> holds
  \<^verbatim>\<open>string_index\<close>, \<open>CP_Ref\<close> (field, method, interface method) holds
  \<^verbatim>\<open>class_index\<close> and \<^verbatim>\<open>name_and_type_index\<close>, \<open>CP_Name_and_type\<close> holds
  \<^verbatim>\<open>name_index\<close> and \<^verbatim>\<open>descriptor_index\<close>, \<open>CP_Method_handle\<close> holds
  \<^verbatim>\<open>reference_kind\<close> and \<^verbatim>\<open>reference_index\<close>, \<open>CP_Method_type\<close> holds
  \<^verbatim>\<open>descriptor_index\<close>, \<open>CP_Invoke_dynamic\<close> holds
  \<^verbatim>\<open>bootstrap_method_attr_index\<close> and \<^verbatim>\<open>name_and_type_index\<close>.
\<close>

datatype cp_info =
    CP_Utf8 (cp_tag: nat) nat "nat list"
  | CP_Integer_Float (cp_tag: nat) nat
  | CP_Long_Double (cp_tag: nat) nat nat
  | CP_Name_index (cp_tag: nat) nat
  | CP_String (cp_tag: nat) nat
  | CP_Ref (cp_tag: nat) nat nat
  | CP_Name_and_type (cp_tag: nat) nat nat
  | CP_Method_handle (cp_tag: nat) nat nat
  | CP_Method_type (cp_tag: nat) nat
  | CP_Invoke_dynamic (cp_tag: nat) nat nat

text \<open>
  \<^verbatim>\<open>_readConstantPoolEntry\<close>. The cases of the switch are tried in the order of the
  source, each comparing the tag with a constant of the table; the default case throws
  \<^verbatim>\<open>Error('Unexpected tag: ' + tag)\<close>.
\<close>

definition readConstantPoolEntry :: "constant_type \<Rightarrow> cursor \<Rightarrow> (error + cp_info) \<times> cursor" where
  "readConstantPoolEntry CT =
     bind readUint8 (\<lambda>tag.
       if tag = UTF8 CT then
         bind readUint16 (\<lambda>strLen.
         bind (collect strLen readUint8) (\<lambda>bytes.
         ret (CP_Utf8 tag strLen bytes)))
       else if tag = INTEGER CT \<or> tag = FLOAT CT then
         bind readUint32 (\<lambda>bytes.
         ret (CP_Integer_Float tag bytes))
       else if tag = LONG CT \<or> tag = DOUBLE CT then
         bind readUint32 (\<lambda>high_bytes.
         bind readUint32 (\<lambda>low_bytes.
         ret (CP_Long_Double tag high_bytes low_bytes)))
       else if tag = PACKAGE CT \<or> tag = MODULE CT \<or> tag = CLASS CT then
         bind readUint16 (\<lambda>name_index.
         ret (CP_Name_index tag name_index))
       else if tag = STRING CT then
         bind readUint16 (\<lambda>string_index.
         ret (CP_String tag string_index))
       else if tag = FIELDREF CT \<or> tag = METHODREF CT \<or> tag = INTERFACE_METHODREF CT then
         bind readUint16 (\<lambda>class_index.
         bind readUint16 (\<lambda>name_and_type_index.
         ret (CP_Ref tag class_index name_and_type_index)))
       else if tag = NAME_AND_TYPE CT then
         bind readUint16 (\<lambda>name_index.
         bind readUint16 (\<lambda>descriptor_index.
         ret (CP_Name_and_type tag name_index descriptor_index)))
       else if tag = METHOD_HANDLE CT then
         bind readUint8 (\<lambda>reference_kind.
         bind readUint16 (\<lambda>reference_index.
         ret (CP_Method_handle tag reference_kind reference_index)))
       else if tag = METHOD_TYPE CT then
         bind readUint16 (\<lambda>descriptor_index.
         ret (CP_Method_type tag descriptor_index))
       else if tag = INVOKE_DYNAMIC CT then
         bind readUint16 (\<lambda>bootstrap_method_attr_index.
         bind readUint16 (\<lambda>name_and_type_index.
         ret (CP_Invoke_dynamic tag bootstrap_method_attr_index name_and_type_index)))
       else throw (Error_Unexpected_tag tag))"

text \<open>
  \<^verbatim>\<open>_readConstantPool(pool_size)\<close>: the pool starts as \<^verbatim>\<open>[undefined]\<close> (\<open>None\<close> is
  \<^verbatim>\<open>undefined\<close>); the loop \<^verbatim>\<open>while (pool_size-- > 0)\<close> pushes each entry, and after a
  long or double entry pushes \<^verbatim>\<open>undefined\<close> and decrements \<open>pool_size\<close> once more.
  The argument is \<^verbatim>\<open>constant_pool_count - 1\<close>, which is \<open>-1\<close> for a count of 0, so
  \<open>pool_size\<close> is an integer.
\<close>

function readConstantPool_loop :: "constant_type \<Rightarrow> int \<Rightarrow> cp_info option list \<Rightarrow> cursor
    \<Rightarrow> (error + cp_info option list) \<times> cursor" where
  "readConstantPool_loop CT pool_size pool c =
     (if pool_size > 0 then
        (case readConstantPoolEntry CT c of
           (Inl e, c') \<Rightarrow> (Inl e, c')
         | (Inr entry, c') \<Rightarrow>
             if cp_tag entry = LONG CT \<or> cp_tag entry = DOUBLE CT
             then readConstantPool_loop CT (pool_size - 1 - 1) (pool @ [Some entry, None]) c'
             else readConstantPool_loop CT (pool_size - 1) (pool @ [Some entry]) c')
      else (Inr pool, c))"
  by pat_completeness auto
termination
  by (relation "measure (\<lambda>(CT, pool_size, pool, c). nat pool_size)") auto

declare readConstantPool_loop.simps [simp del]

definition readConstantPool :: "constant_type \<Rightarrow> int \<Rightarrow> cursor
    \<Rightarrow> (error + cp_info option list) \<times> cursor" where
  "readConstantPool CT pool_size = readConstantPool_loop CT pool_size [None]"

section \<open>The double-slot rule of the constant pool\<close>

text \<open>The rule as a predicate on a pool, the invariant of the loop.\<close>

definition double_slot :: "constant_type \<Rightarrow> cp_info option list \<Rightarrow> bool" where
  "double_slot CT pool = (\<forall>i e. i < length pool \<and> pool ! i = Some e \<longrightarrow>
     (if cp_tag e = LONG CT \<or> cp_tag e = DOUBLE CT
      then i + 1 < length pool \<and> pool ! (i + 1) = None
           \<and> (i + 2 < length pool \<longrightarrow> pool ! (i + 2) \<noteq> None)
      else i + 1 < length pool \<longrightarrow> pool ! (i + 1) \<noteq> None))"

lemma double_slot_init: "double_slot CT [None]"
  by (simp add: double_slot_def)

lemma double_slot_single:
  assumes "double_slot CT pool" "\<not> (cp_tag e = LONG CT \<or> cp_tag e = DOUBLE CT)"
  shows "double_slot CT (pool @ [Some e])"
  unfolding double_slot_def
proof (intro allI impI)
  fix i x
  assume h: "i < length (pool @ [Some e]) \<and> (pool @ [Some e]) ! i = Some x"
  show "if cp_tag x = LONG CT \<or> cp_tag x = DOUBLE CT
      then i + 1 < length (pool @ [Some e]) \<and> (pool @ [Some e]) ! (i + 1) = None
           \<and> (i + 2 < length (pool @ [Some e]) \<longrightarrow> (pool @ [Some e]) ! (i + 2) \<noteq> None)
      else i + 1 < length (pool @ [Some e]) \<longrightarrow> (pool @ [Some e]) ! (i + 1) \<noteq> None"
  proof (cases "i < length pool")
    case True
    with h have px: "pool ! i = Some x" by (simp add: nth_append)
    from assms(1) True px have old:
      "if cp_tag x = LONG CT \<or> cp_tag x = DOUBLE CT
       then i + 1 < length pool \<and> pool ! (i + 1) = None
           \<and> (i + 2 < length pool \<longrightarrow> pool ! (i + 2) \<noteq> None)
       else i + 1 < length pool \<longrightarrow> pool ! (i + 1) \<noteq> None"
      unfolding double_slot_def by blast
    with True show ?thesis
      by (auto simp: nth_append less_Suc_eq split: if_splits)
  next
    case False
    with h have "i = length pool" by simp
    with h assms(2) show ?thesis by (simp add: nth_append)
  qed
qed

lemma double_slot_wide:
  assumes "double_slot CT pool" "cp_tag e = LONG CT \<or> cp_tag e = DOUBLE CT"
  shows "double_slot CT (pool @ [Some e, None])"
  unfolding double_slot_def
proof (intro allI impI)
  fix i x
  let ?p = "pool @ [Some e, None]"
  assume h: "i < length ?p \<and> ?p ! i = Some x"
  show "if cp_tag x = LONG CT \<or> cp_tag x = DOUBLE CT
      then i + 1 < length ?p \<and> ?p ! (i + 1) = None
           \<and> (i + 2 < length ?p \<longrightarrow> ?p ! (i + 2) \<noteq> None)
      else i + 1 < length ?p \<longrightarrow> ?p ! (i + 1) \<noteq> None"
  proof (cases "i < length pool")
    case True
    with h have px: "pool ! i = Some x" by (simp add: nth_append)
    from assms(1) True px have old:
      "if cp_tag x = LONG CT \<or> cp_tag x = DOUBLE CT
       then i + 1 < length pool \<and> pool ! (i + 1) = None
           \<and> (i + 2 < length pool \<longrightarrow> pool ! (i + 2) \<noteq> None)
       else i + 1 < length pool \<longrightarrow> pool ! (i + 1) \<noteq> None"
      unfolding double_slot_def by blast
    with True show ?thesis
      by (auto simp: nth_append less_Suc_eq split: if_splits)
  next
    case False
    with h have "i = length pool \<or> i = Suc (length pool)" by auto
    with h have i: "i = length pool" and x: "x = e" by (auto simp: nth_append)
    with assms(2) show ?thesis by (simp add: nth_append)
  qed
qed

lemma readConstantPool_loop_double_slot:
  "double_slot CT pool \<Longrightarrow> readConstantPool_loop CT n pool c = (Inr pool', c')
     \<Longrightarrow> double_slot CT pool'"
proof (induction CT n pool c rule: readConstantPool_loop.induct)
  case (1 CT pool_size pool c)
  show ?case
  proof (cases "pool_size > 0")
    case False
    with "1.prems" show ?thesis by (simp add: readConstantPool_loop.simps)
  next
    case True
    show ?thesis
    proof (cases "readConstantPoolEntry CT c")
      case (Pair r c1)
      show ?thesis
      proof (cases r)
        case (Inl e)
        with True Pair "1.prems" show ?thesis by (simp add: readConstantPool_loop.simps)
      next
        case (Inr entry)
        show ?thesis
        proof (cases "cp_tag entry = LONG CT \<or> cp_tag entry = DOUBLE CT")
          case wide: True
          have ds: "double_slot CT (pool @ [Some entry, None])"
            using "1.prems"(1) wide by (rule double_slot_wide)
          have run: "readConstantPool_loop CT (pool_size - 1 - 1) (pool @ [Some entry, None]) c1
              = (Inr pool', c')"
            using "1.prems"(2) True Pair Inr wide
            by (simp add: readConstantPool_loop.simps [of CT pool_size])
          from "1.IH"(1) [OF True Pair [symmetric] Inr wide ds run] show ?thesis .
        next
          case narrow: False
          have ds: "double_slot CT (pool @ [Some entry])"
            using "1.prems"(1) narrow by (rule double_slot_single)
          have run: "readConstantPool_loop CT (pool_size - 1) (pool @ [Some entry]) c1
              = (Inr pool', c')"
            using "1.prems"(2) True Pair Inr narrow
            by (simp add: readConstantPool_loop.simps [of CT pool_size])
          from "1.IH"(2) [OF True Pair [symmetric] Inr narrow ds run] show ?thesis .
        qed
      qed
    qed
  qed
qed

text \<open>
  C2: in every successfully decoded constant pool, a long or double entry at index \<open>i\<close>
  is followed by the reserved placeholder at \<open>i + 1\<close>, and the slot at \<open>i + 2\<close>, when
  the pool goes that far, holds a real entry; after any other entry the slot at
  \<open>i + 1\<close>, when there is one, holds a real entry.
\<close>

theorem readConstantPool_double_slot:
  assumes "readConstantPool CT pool_size c = (Inr pool, c')"
    and "i < length pool" and "pool ! i = Some e"
  shows "if cp_tag e = LONG CT \<or> cp_tag e = DOUBLE CT
         then i + 1 < length pool \<and> pool ! (i + 1) = None
              \<and> (i + 2 < length pool \<longrightarrow> pool ! (i + 2) \<noteq> None)
         else i + 1 < length pool \<longrightarrow> pool ! (i + 1) \<noteq> None"
proof -
  have "double_slot CT pool"
    using double_slot_init assms(1) unfolding readConstantPool_def
    by (rule readConstantPool_loop_double_slot)
  with assms(2,3) show ?thesis
    unfolding double_slot_def by blast
qed

theorem readConstantPool_double_slot_witness:
  "readConstantPool jvms_ConstantType 3 [5, 0, 0, 0, 0, 0, 0, 0, 1, 1, 0, 1, 65] =
     (Inr [None, Some (CP_Long_Double 5 0 1), None, Some (CP_Utf8 1 1 [65])], [])
   \<and> [None, Some (CP_Long_Double 5 0 1), None, Some (CP_Utf8 1 1 [65])] ! 2 = None
   \<and> [None, Some (CP_Long_Double 5 0 1), None, Some (CP_Utf8 1 1 [65])] ! 3 \<noteq> None"
proof -
  have run: "readConstantPool jvms_ConstantType 3 [5, 0, 0, 0, 0, 0, 0, 0, 1, 1, 0, 1, 65] =
     (Inr [None, Some (CP_Long_Double 5 0 1), None, Some (CP_Utf8 1 1 [65])], [])"
    by (simp add: readConstantPool_def readConstantPool_loop.simps readConstantPoolEntry_def
        bind_def ret_def readUint8_Cons readUint16_Cons readUint32_Cons jvms_ConstantType_def
        collect_def)
  have "(1::nat) < length [None, Some (CP_Long_Double 5 0 1), None, Some (CP_Utf8 1 1 [65])]"
    by simp
  from readConstantPool_double_slot [OF run this, of "CP_Long_Double 5 0 1"] run
  show ?thesis by (simp add: jvms_ConstantType_def)
qed

section \<open>Annotations and element values\<close>

text \<open>
  An \<^verbatim>\<open>element_value\<close> object has a \<^verbatim>\<open>tag\<close> and a \<^verbatim>\<open>value\<close> object with one
  property, named by the constructor: \<^verbatim>\<open>enum_const_value\<close> (type name index, const
  name index), \<^verbatim>\<open>class_info_index\<close>, \<^verbatim>\<open>array_value\<close> (\<^verbatim>\<open>num_values\<close> and
  \<^verbatim>\<open>values\<close>), \<^verbatim>\<open>annotation\<close> or \<^verbatim>\<open>const_value_index\<close>. An annotation holds
  \<^verbatim>\<open>type_index\<close>, \<^verbatim>\<open>num_element_value_pairs\<close> and the pairs
  (\<^verbatim>\<open>element_name_index\<close>, \<^verbatim>\<open>element_value\<close>).
\<close>

datatype element_value = Element_value (ev_tag: nat) (ev_value: element_value_union)
and element_value_union =
    Enum_const_value nat nat
  | Class_info_index nat
  | Array_value nat "element_value list"
  | Annotation_value annotation
  | Const_value_index nat
and annotation = Annotation nat nat "(nat \<times> element_value) list"

lemma readUint8_length: "readUint8 c = (r, c') \<Longrightarrow> length c' \<le> length c"
  by (auto simp: readUint8_def split: list.splits)

lemma readUint8_less: "readUint8 c = (Inr x, c') \<Longrightarrow> length c' < length c"
  by (auto simp: readUint8_def split: list.splits)

lemma readUint16_length: "readUint16 c = (r, c') \<Longrightarrow> length c' \<le> length c"
  by (auto simp: readUint16_def split: list.splits)

lemma readUint16_less: "readUint16 c = (Inr x, c') \<Longrightarrow> length c' < length c"
  by (auto simp: readUint16_def split: list.splits)

text \<open>
  \<^verbatim>\<open>_readElementValue\<close> and \<^verbatim>\<open>_readAttributeAnnotation\<close> call each other. Their two
  loops (\<^verbatim>\<open>while (num_values-- > 0)\<close> and \<^verbatim>\<open>while (len-- > 0)\<close>) are the functions
  \<open>readElementValue_values\<close> and \<open>readAttributeAnnotation_pairs\<close>, which carry the
  array filled so far. The switch on the tag is the chain of comparisons; its default
  case throws \<^verbatim>\<open>Error('Unexpected tag: ' + tag)\<close>.
\<close>

function readElementValue :: "cursor \<Rightarrow> (error + element_value) \<times> cursor"
  and readElementValue_values :: "nat \<Rightarrow> element_value list \<Rightarrow> cursor
    \<Rightarrow> (error + element_value list) \<times> cursor"
  and readAttributeAnnotation :: "cursor \<Rightarrow> (error + annotation) \<times> cursor"
  and readAttributeAnnotation_pairs :: "nat \<Rightarrow> (nat \<times> element_value) list \<Rightarrow> cursor
    \<Rightarrow> (error + (nat \<times> element_value) list) \<times> cursor"
where
  "readElementValue c =
     (case readUint8 c of
        (Inl e, c1) \<Rightarrow> (Inl e, c1)
      | (Inr tag, c1) \<Rightarrow>
          if tag = 101 then
            (case readUint16 c1 of
               (Inl e, c2) \<Rightarrow> (Inl e, c2)
             | (Inr type_name_index, c2) \<Rightarrow>
                 (case readUint16 c2 of
                    (Inl e, c3) \<Rightarrow> (Inl e, c3)
                  | (Inr const_name_index, c3) \<Rightarrow>
                      (Inr (Element_value tag (Enum_const_value type_name_index const_name_index)), c3)))
          else if tag = 99 then
            (case readUint16 c1 of
               (Inl e, c2) \<Rightarrow> (Inl e, c2)
             | (Inr class_info_index, c2) \<Rightarrow>
                 (Inr (Element_value tag (Class_info_index class_info_index)), c2))
          else if tag = 91 then
            (case readUint16 c1 of
               (Inl e, c2) \<Rightarrow> (Inl e, c2)
             | (Inr num_values, c2) \<Rightarrow>
                 (case readElementValue_values num_values [] c2 of
                    (Inl e, c3) \<Rightarrow> (Inl e, c3)
                  | (Inr vs, c3) \<Rightarrow>
                      (Inr (Element_value tag (Array_value num_values vs)), c3)))
          else if tag = 64 then
            (case readAttributeAnnotation c1 of
               (Inl e, c2) \<Rightarrow> (Inl e, c2)
             | (Inr a, c2) \<Rightarrow> (Inr (Element_value tag (Annotation_value a)), c2))
          else if tag = 66 \<or> tag = 67 \<or> tag = 68 \<or> tag = 70 \<or> tag = 73 \<or> tag = 74
                  \<or> tag = 83 \<or> tag = 90 \<or> tag = 115 then
            (case readUint16 c1 of
               (Inl e, c2) \<Rightarrow> (Inl e, c2)
             | (Inr const_value_index, c2) \<Rightarrow>
                 (Inr (Element_value tag (Const_value_index const_value_index)), c2))
          else (Inl (Error_Unexpected_tag tag), c1))"
| "readElementValue_values n vs c =
     (if n > 0 then
        (case readElementValue c of
           (Inl e, c1) \<Rightarrow> (Inl e, c1)
         | (Inr v, c1) \<Rightarrow> readElementValue_values (n - 1) (vs @ [v]) c1)
      else (Inr vs, c))"
| "readAttributeAnnotation c =
     (case readUint16 c of
        (Inl e, c1) \<Rightarrow> (Inl e, c1)
      | (Inr type_index, c1) \<Rightarrow>
          (case readUint16 c1 of
             (Inl e, c2) \<Rightarrow> (Inl e, c2)
           | (Inr num_element_value_pairs, c2) \<Rightarrow>
               (case readAttributeAnnotation_pairs num_element_value_pairs [] c2 of
                  (Inl e, c3) \<Rightarrow> (Inl e, c3)
                | (Inr ps, c3) \<Rightarrow>
                    (Inr (Annotation type_index num_element_value_pairs ps), c3))))"
| "readAttributeAnnotation_pairs n ps c =
     (if n > 0 then
        (case readUint16 c of
           (Inl e, c1) \<Rightarrow> (Inl e, c1)
         | (Inr element_name_index, c1) \<Rightarrow>
             (case readElementValue c1 of
                (Inl e, c2) \<Rightarrow> (Inl e, c2)
              | (Inr v, c2) \<Rightarrow>
                  readAttributeAnnotation_pairs (n - 1) (ps @ [(element_name_index, v)]) c2))
      else (Inr ps, c))"
  by pat_completeness auto

text \<open>No decoder of the group hands back more input than it was given.\<close>

lemma readElementValue_dom_length:
  "readElementValue_readElementValue_values_readAttributeAnnotation_readAttributeAnnotation_pairs_dom (Inl (Inl c))
     \<Longrightarrow> length (snd (readElementValue c)) \<le> length c"
  "readElementValue_readElementValue_values_readAttributeAnnotation_readAttributeAnnotation_pairs_dom (Inl (Inr (n, vs, c1)))
     \<Longrightarrow> length (snd (readElementValue_values n vs c1)) \<le> length c1"
  "readElementValue_readElementValue_values_readAttributeAnnotation_readAttributeAnnotation_pairs_dom (Inr (Inl c2))
     \<Longrightarrow> length (snd (readAttributeAnnotation c2)) \<le> length c2"
  "readElementValue_readElementValue_values_readAttributeAnnotation_readAttributeAnnotation_pairs_dom (Inr (Inr (m, ps, c3)))
     \<Longrightarrow> length (snd (readAttributeAnnotation_pairs m ps c3)) \<le> length c3"
proof (induct rule: readElementValue_readElementValue_values_readAttributeAnnotation_readAttributeAnnotation_pairs.pinduct)
  case (1 c)
  note ps = readElementValue.psimps [OF 1(1)]
  obtain r cA where u8: "readUint8 c = (r, cA)" by (cases "readUint8 c")
  have lA: "length cA \<le> length c" using u8 by (rule readUint8_length)
  obtain r2 cB where u16: "readUint16 cA = (r2, cB)" by (cases "readUint16 cA")
  have lB: "length cB \<le> length cA" using u16 by (rule readUint16_length)
  obtain r3 cC where u16': "readUint16 cB = (r3, cC)" by (cases "readUint16 cB")
  have lC: "length cC \<le> length cB" using u16' by (rule readUint16_length)
  show ?case
  proof (cases r)
    case (Inl e)
    with u8 lA show ?thesis by (simp add: ps)
  next
    case (Inr tag)
    consider (enum) "tag = 101" | (cls) "tag = 99" | (arr) "tag = 91" | (ann) "tag = 64"
      | (other) "tag \<noteq> 101" "tag \<noteq> 99" "tag \<noteq> 91" "tag \<noteq> 64"
      by blast
    then show ?thesis
    proof cases
      case enum
      with u8 Inr u16 u16' lA lB lC show ?thesis
        by (cases r2; cases r3) (simp_all add: ps)
    next
      case cls
      with u8 Inr u16 lA lB show ?thesis
        by (cases r2) (simp_all add: ps)
    next
      case arr
      show ?thesis
      proof (cases r2)
        case (Inl e)
        with u8 Inr u16 lA lB arr show ?thesis by (simp add: ps)
      next
        case nv: (Inr num_values)
        have "length (snd (readElementValue_values num_values [] cB)) \<le> length cB"
          using 1(2) [of r cA tag r2 cB num_values] u8 u16 Inr nv arr by simp
        with u8 Inr u16 lA lB arr nv show ?thesis
          by (auto simp: ps split: prod.splits sum.splits)
      qed
    next
      case ann
      have "length (snd (readAttributeAnnotation cA)) \<le> length cA"
        using 1(3) [of r cA tag] u8 Inr ann by simp
      with u8 Inr lA ann show ?thesis
        by (auto simp: ps split: prod.splits sum.splits)
    next
      case other
      with u8 Inr u16 lA lB show ?thesis
        by (cases r2) (simp_all add: ps)
    qed
  qed
next
  case (2 n vs c)
  note ps = readElementValue_values.psimps [OF 2(1)]
  show ?case
  proof (cases "n > 0")
    case False
    then show ?thesis by (subst ps) simp
  next
    case True
    obtain r cA where ev: "readElementValue c = (r, cA)" by (cases "readElementValue c")
    have lA: "length cA \<le> length c" using 2(2) [OF True] ev by simp
    show ?thesis
    proof (cases r)
      case (Inl e)
      with True ev lA show ?thesis by (simp add: ps)
    next
      case (Inr v)
      have "length (snd (readElementValue_values (n - 1) (vs @ [v]) cA)) \<le> length cA"
        using 2(3) [of r cA v] True ev Inr by simp
      with True ev Inr lA show ?thesis by (simp add: ps)
    qed
  qed
next
  case (3 c)
  note ps = readAttributeAnnotation.psimps [OF 3(1)]
  obtain r cA where u16: "readUint16 c = (r, cA)" by (cases "readUint16 c")
  have lA: "length cA \<le> length c" using u16 by (rule readUint16_length)
  obtain r2 cB where u16': "readUint16 cA = (r2, cB)" by (cases "readUint16 cA")
  have lB: "length cB \<le> length cA" using u16' by (rule readUint16_length)
  show ?case
  proof (cases r)
    case (Inl e)
    with u16 lA show ?thesis by (simp add: ps)
  next
    case (Inr type_index)
    show ?thesis
    proof (cases r2)
      case (Inl e)
      with u16 u16' Inr lA lB show ?thesis by (simp add: ps)
    next
      case np: (Inr num_pairs)
      have "length (snd (readAttributeAnnotation_pairs num_pairs [] cB)) \<le> length cB"
        using 3(2) [of r cA type_index r2 cB num_pairs] u16 u16' Inr np by simp
      with u16 u16' Inr np lA lB show ?thesis
        by (auto simp: ps split: prod.splits sum.splits)
    qed
  qed
next
  case (4 n ps c)
  note psi = readAttributeAnnotation_pairs.psimps [OF 4(1)]
  show ?case
  proof (cases "n > 0")
    case False
    then show ?thesis by (subst psi) simp
  next
    case True
    obtain r cA where u16: "readUint16 c = (r, cA)" by (cases "readUint16 c")
    have lA: "length cA \<le> length c" using u16 by (rule readUint16_length)
    show ?thesis
    proof (cases r)
      case (Inl e)
      with True u16 lA show ?thesis by (simp add: psi)
    next
      case (Inr element_name_index)
      obtain r2 cB where ev: "readElementValue cA = (r2, cB)" by (cases "readElementValue cA")
      have lB: "length cB \<le> length cA"
        using 4(2) [of r cA element_name_index] True u16 Inr ev by simp
      show ?thesis
      proof (cases r2)
        case (Inl e)
        with True u16 Inr ev lA lB show ?thesis by (simp add: psi)
      next
        case v: (Inr v)
        have "length (snd (readAttributeAnnotation_pairs (n - 1) (ps @ [(element_name_index, v)]) cB))
            \<le> length cB"
          using 4(3) [of r cA element_name_index r2 cB v] True u16 Inr ev v by simp
        with True u16 Inr ev v lA lB show ?thesis by (simp add: psi)
      qed
    qed
  qed
qed

lemma readElementValue_all_dom:
  "All readElementValue_readElementValue_values_readAttributeAnnotation_readAttributeAnnotation_pairs_dom"
proof (rule "readElementValue_readElementValue_values_readAttributeAnnotation_readAttributeAnnotation_pairs.termination"
    [where R = "measures [
    (\<lambda>x. case x of Inl (Inl c) \<Rightarrow> length c | Inl (Inr (n, vs, c)) \<Rightarrow> length c
          | Inr (Inl c) \<Rightarrow> length c | Inr (Inr (n, ps, c)) \<Rightarrow> length c),
    (\<lambda>x. case x of Inl (Inl c) \<Rightarrow> 0 | Inl (Inr (n, vs, c)) \<Rightarrow> Suc n
          | Inr (Inl c) \<Rightarrow> 0 | Inr (Inr (n, ps, c)) \<Rightarrow> Suc n)]"], goal_cases)
  case 1
  show ?case by simp
next
  case (2 c x y b xa ya ba)
  then have "length y < length c" "length ya < length y"
    by (metis readUint8_less, metis readUint16_less)
  then show ?case by simp
next
  case (3 c x y b)
  then have "length y < length c" by (metis readUint8_less)
  then show ?case by simp
next
  case (4 n vs c)
  then show ?case by simp
next
  case (5 n vs c x y b)
  from readElementValue_dom_length(1) [OF 5(4)] 5(2) have "length y \<le> length c"
    by (metis snd_conv)
  with 5(1) show ?case by auto
next
  case (6 c x y b xa ya ba)
  then have "length y < length c" "length ya < length y"
    by (metis readUint16_less)+
  then show ?case by simp
next
  case (7 n ps c x y b)
  then have "length y < length c" by (metis readUint16_less)
  then show ?case by simp
next
  case (8 n ps c x y b xa ya ba)
  from 8 have "length y < length c" by (metis readUint16_less)
  moreover from readElementValue_dom_length(1) [OF 8(6)] 8(4) have "length ya \<le> length y"
    by (metis snd_conv)
  ultimately show ?case by simp
qed

termination readElementValue
  by (rule readElementValue_all_dom)

declare readElementValue.simps [simp del] readElementValue_values.simps [simp del]
  readAttributeAnnotation.simps [simp del] readAttributeAnnotation_pairs.simps [simp del]

section \<open>Type annotations\<close>

text \<open>
  The \<^verbatim>\<open>target_info\<close> union of a type annotation, one constructor per case of the
  switch in \<^verbatim>\<open>_readTypeAnnotation\<close>, holding the properties the case assigns in
  order; a \<^verbatim>\<open>localvar_target\<close> holds \<^verbatim>\<open>table_length\<close> and the table of
  (\<^verbatim>\<open>start_pc\<close>, \<^verbatim>\<open>length\<close>, \<^verbatim>\<open>index\<close>). A type annotation holds
  \<^verbatim>\<open>target_type\<close>, \<^verbatim>\<open>target_info\<close>, the type path (\<^verbatim>\<open>path_length\<close> and the
  pairs \<^verbatim>\<open>type_path_kind\<close>, \<^verbatim>\<open>type_argument_index\<close>), \<^verbatim>\<open>type_index\<close>,
  \<^verbatim>\<open>num_element_value_pairs\<close> and the element value pairs.
\<close>

datatype target_info =
    Type_parameter_target nat
  | Supertype_target nat
  | Type_parameter_bound_target nat nat
  | Empty_target
  | Formal_parameter_target nat
  | Throws_target nat
  | Localvar_target nat "(nat \<times> nat \<times> nat) list"
  | Catch_target nat
  | Offset_target nat
  | Type_argument_target nat nat

datatype type_annotation =
  Type_annotation nat target_info nat "(nat \<times> nat) list" nat nat "(nat \<times> element_value) list"

text \<open>
  An object literal whose properties are consecutive reads, evaluated in order, is a
  tuple of the values read.
\<close>

definition readUint16_2 :: "cursor \<Rightarrow> (error + nat \<times> nat) \<times> cursor" where
  "readUint16_2 = bind readUint16 (\<lambda>a. bind readUint16 (\<lambda>b. ret (a, b)))"

definition readUint16_3 :: "cursor \<Rightarrow> (error + nat \<times> nat \<times> nat) \<times> cursor" where
  "readUint16_3 = bind readUint16 (\<lambda>a. bind readUint16 (\<lambda>b. bind readUint16 (\<lambda>c.
     ret (a, b, c))))"

definition readUint16_4 :: "cursor \<Rightarrow> (error + nat \<times> nat \<times> nat \<times> nat) \<times> cursor" where
  "readUint16_4 = bind readUint16 (\<lambda>a. bind readUint16 (\<lambda>b. bind readUint16 (\<lambda>c.
     bind readUint16 (\<lambda>d. ret (a, b, c, d)))))"

definition readUint16_5 :: "cursor \<Rightarrow> (error + nat \<times> nat \<times> nat \<times> nat \<times> nat) \<times> cursor" where
  "readUint16_5 = bind readUint16 (\<lambda>a. bind readUint16 (\<lambda>b. bind readUint16 (\<lambda>c.
     bind readUint16 (\<lambda>d. bind readUint16 (\<lambda>e. ret (a, b, c, d, e))))))"

definition readUint8_2 :: "cursor \<Rightarrow> (error + nat \<times> nat) \<times> cursor" where
  "readUint8_2 = bind readUint8 (\<lambda>a. bind readUint8 (\<lambda>b. ret (a, b)))"

definition readElementValuePair :: "cursor \<Rightarrow> (error + nat \<times> element_value) \<times> cursor" where
  "readElementValuePair =
     bind readUint16 (\<lambda>element_name_index.
     bind readElementValue (\<lambda>element_value.
     ret (element_name_index, element_value)))"

text \<open>
  The switch on \<^verbatim>\<open>target_type\<close>; its default case throws
  \<^verbatim>\<open>Error('Unexpected target_type: ' + target_type)\<close>.
\<close>

definition readTargetInfo :: "nat \<Rightarrow> cursor \<Rightarrow> (error + target_info) \<times> cursor" where
  "readTargetInfo target_type =
     (if target_type = 0x00 \<or> target_type = 0x01 then
        bind readUint8 (\<lambda>type_parameter_index. ret (Type_parameter_target type_parameter_index))
      else if target_type = 0x10 then
        bind readUint16 (\<lambda>supertype_index. ret (Supertype_target supertype_index))
      else if target_type = 0x11 \<or> target_type = 0x12 then
        bind readUint8 (\<lambda>type_parameter_index.
        bind readUint8 (\<lambda>bound_index.
        ret (Type_parameter_bound_target type_parameter_index bound_index)))
      else if target_type = 0x13 \<or> target_type = 0x14 \<or> target_type = 0x15 then
        ret Empty_target
      else if target_type = 0x16 then
        bind readUint8 (\<lambda>formal_parameter_index. ret (Formal_parameter_target formal_parameter_index))
      else if target_type = 0x17 then
        bind readUint16 (\<lambda>throws_type_index. ret (Throws_target throws_type_index))
      else if target_type = 0x40 \<or> target_type = 0x41 then
        bind readUint16 (\<lambda>table_length.
        bind (collect table_length readUint16_3) (\<lambda>table.
        ret (Localvar_target table_length table)))
      else if target_type = 0x42 then
        bind readUint16 (\<lambda>exception_table_index. ret (Catch_target exception_table_index))
      else if target_type = 0x43 \<or> target_type = 0x44 \<or> target_type = 0x45
              \<or> target_type = 0x46 then
        bind readUint16 (\<lambda>offset. ret (Offset_target offset))
      else if target_type = 0x47 \<or> target_type = 0x48 \<or> target_type = 0x49
              \<or> target_type = 0x4A \<or> target_type = 0x4B then
        bind readUint16 (\<lambda>offset.
        bind readUint8 (\<lambda>type_argument_index.
        ret (Type_argument_target offset type_argument_index)))
      else throw (Error_Unexpected_target_type target_type))"

definition readTypeAnnotation :: "cursor \<Rightarrow> (error + type_annotation) \<times> cursor" where
  "readTypeAnnotation =
     bind readUint8 (\<lambda>target_type.
     bind (readTargetInfo target_type) (\<lambda>target_info.
     bind readUint8 (\<lambda>path_length.
     bind (collect path_length readUint8_2) (\<lambda>path.
     bind readUint16 (\<lambda>type_index.
     bind readUint16 (\<lambda>num_element_value_pairs.
     bind (collect num_element_value_pairs readElementValuePair) (\<lambda>element_value_pairs.
     ret (Type_annotation target_type target_info path_length path type_index
            num_element_value_pairs element_value_pairs))))))))"

section \<open>Attributes\<close>

text \<open>
  An attribute object holds \<^verbatim>\<open>attribute_name_index\<close>, \<^verbatim>\<open>attribute_length\<close> and the
  properties assigned by the case of the switch on its name. Each constructor of
  \<open>attribute_body\<close> is one case of the switch in \<^verbatim>\<open>_readAttributeInfo\<close>, with the
  properties in the order the case assigns them; \<open>Attr_Info\<close> is the default case, an
  unknown attribute with its raw \<^verbatim>\<open>info\<close> bytes. In \<open>Attr_StackMap\<close> an entry is
  (\<^verbatim>\<open>offset\<close>, \<^verbatim>\<open>number_of_locals\<close>, \<^verbatim>\<open>locals\<close>, \<^verbatim>\<open>number_of_stack_items\<close>,
  \<^verbatim>\<open>stack\<close>).
\<close>

datatype attribute_info =
  Attribute_info nat nat attribute_body
and attribute_body =
    Attr_Annotations nat "annotation list"
  | Attr_No_info
  | Attr_InnerClasses nat "(nat \<times> nat \<times> nat \<times> nat) list"
  | Attr_LocalVariableTable nat "(nat \<times> nat \<times> nat \<times> nat \<times> nat) list"
  | Attr_LocalVariableTypeTable nat "(nat \<times> nat \<times> nat \<times> nat \<times> nat) list"
  | Attr_ParameterAnnotations nat "(nat \<times> annotation list) list"
  | Attr_BootstrapMethods nat "(nat \<times> nat \<times> nat list) list"
  | Attr_TypeAnnotations nat "type_annotation list"
  | Attr_SourceDebugExtension "nat list"
  | Attr_SourceFile nat
  | Attr_EnclosingMethod nat nat
  | Attr_AnnotationDefault element_value
  | Attr_MethodParameters nat "(nat \<times> nat) list"
  | Attr_Exceptions nat "nat list"
  | Attr_ConstantValue nat
  | Attr_Signature nat
  | Attr_StackMap nat
      "(nat \<times> nat \<times> verification_type_info list \<times> nat \<times> verification_type_info list) list"
  | Attr_StackMapTable nat "stack_map_frame list"
  | Attr_Code nat nat nat "nat list" nat "(nat \<times> nat \<times> nat \<times> nat) list" nat
      "attribute_info list"
  | Attr_LineNumberTable nat "(nat \<times> nat) list"
  | Attr_ModuleMainClass nat
  | Attr_Module nat nat nat
      nat "(nat \<times> nat \<times> nat) list"
      nat "(nat \<times> nat \<times> nat \<times> nat list) list"
      nat "(nat \<times> nat \<times> nat \<times> nat list) list"
      nat "nat list"
      nat "(nat \<times> nat \<times> nat list) list"
  | Attr_ModulePackages nat "nat list"
  | Attr_ModuleTarget nat
  | Attr_ModuleHashes nat nat "(nat \<times> nat \<times> nat list) list"
  | Attr_Info "nat list"

text \<open>
  The name of an attribute is
  \<^verbatim>\<open>String.fromCharCode.apply(null, constant_pool[attribute_name_index].bytes)\<close>. A
  JavaScript string is the list of its UTF-16 code units; \<open>str\<close> gives the code units
  of an ASCII literal of the source. Indexing the pool out of range, at index 0 or at the
  slot after a long or double gives \<^verbatim>\<open>undefined\<close>, whose property \<^verbatim>\<open>bytes\<close> cannot be
  read: a TypeError. An entry made by the integer or float case has a number as
  \<^verbatim>\<open>bytes\<close>, which \<^verbatim>\<open>apply\<close> rejects with a TypeError. An entry without the property
  gives \<^verbatim>\<open>apply(null, undefined)\<close>, the empty string. The model takes it that the
  engine accepts as many arguments as a UTF8 entry has bytes.
\<close>

definition String_fromCharCode :: "nat list \<Rightarrow> nat list" where
  "String_fromCharCode codes = map (\<lambda>n. n mod 65536) codes"

definition str :: "string \<Rightarrow> nat list" where
  "str s = map of_char s"

definition attributeNameOf :: "cp_info option list \<Rightarrow> nat \<Rightarrow> error + nat list" where
  "attributeNameOf constant_pool attribute_name_index =
     (case (if attribute_name_index < length constant_pool
            then constant_pool ! attribute_name_index else None) of
        None \<Rightarrow> Inl (TypeError ''Cannot read properties of undefined (reading bytes)'')
      | Some (CP_Utf8 tag len bytes) \<Rightarrow> Inr (String_fromCharCode bytes)
      | Some (CP_Integer_Float tag bytes) \<Rightarrow>
          Inl (TypeError ''CreateListFromArrayLike called on non-object'')
      | Some other \<Rightarrow> Inr [])"

text \<open>The entries of the tables that hold a nested table.\<close>

definition readParameterAnnotation :: "cursor \<Rightarrow> (error + nat \<times> annotation list) \<times> cursor" where
  "readParameterAnnotation =
     bind readUint16 (\<lambda>num_annotations.
     bind (collect num_annotations readAttributeAnnotation) (\<lambda>annotations.
     ret (num_annotations, annotations)))"

definition readBootstrapMethod :: "cursor \<Rightarrow> (error + nat \<times> nat \<times> nat list) \<times> cursor" where
  "readBootstrapMethod =
     bind readUint16 (\<lambda>bootstrap_method_ref.
     bind readUint16 (\<lambda>num_bootstrap_arguments.
     bind (collect num_bootstrap_arguments readUint16) (\<lambda>bootstrap_arguments.
     ret (bootstrap_method_ref, num_bootstrap_arguments, bootstrap_arguments))))"

definition readStackMap_entry :: "cursor
    \<Rightarrow> (error + nat \<times> nat \<times> verification_type_info list \<times> nat \<times> verification_type_info list)
        \<times> cursor" where
  "readStackMap_entry =
     bind readUint16 (\<lambda>offset.
     bind readUint16 (\<lambda>number_of_locals.
     bind (collect number_of_locals readVerificationTypeInfo) (\<lambda>locals.
     bind readUint16 (\<lambda>number_of_stack_items.
     bind (collect number_of_stack_items readVerificationTypeInfo) (\<lambda>stack.
     ret (offset, number_of_locals, locals, number_of_stack_items, stack))))))"

definition readModule_to_entry :: "cursor \<Rightarrow> (error + nat \<times> nat \<times> nat \<times> nat list) \<times> cursor" where
  "readModule_to_entry =
     bind readUint16 (\<lambda>index.
     bind readUint16 (\<lambda>flags.
     bind readUint16 (\<lambda>to_count.
     bind (collect to_count readUint16) (\<lambda>to_index.
     ret (index, flags, to_count, to_index)))))"

definition readModule_provides_entry :: "cursor \<Rightarrow> (error + nat \<times> nat \<times> nat list) \<times> cursor" where
  "readModule_provides_entry =
     bind readUint16 (\<lambda>provides_index.
     bind readUint16 (\<lambda>provides_with_count.
     bind (collect provides_with_count readUint16) (\<lambda>provides_with_index.
     ret (provides_index, provides_with_count, provides_with_index))))"

definition readModuleHashes_entry :: "cursor \<Rightarrow> (error + nat \<times> nat \<times> nat list) \<times> cursor" where
  "readModuleHashes_entry =
     bind readUint16 (\<lambda>module_name_index.
     bind readUint16 (\<lambda>hash_length.
     bind (collect hash_length readUint8) (\<lambda>hash.
     ret (module_name_index, hash_length, hash))))"

definition readModule :: "cursor \<Rightarrow> (error + attribute_body) \<times> cursor" where
  "readModule =
     bind readUint16 (\<lambda>module_name_index.
     bind readUint16 (\<lambda>module_flags.
     bind readUint16 (\<lambda>module_version_index.
     bind readUint16 (\<lambda>requires_count.
     bind (collect requires_count readUint16_3) (\<lambda>requires.
     bind readUint16 (\<lambda>exports_count.
     bind (collect exports_count readModule_to_entry) (\<lambda>exports.
     bind readUint16 (\<lambda>opens_count.
     bind (collect opens_count readModule_to_entry) (\<lambda>opens.
     bind readUint16 (\<lambda>uses_count.
     bind (collect uses_count readUint16) (\<lambda>uses_index.
     bind readUint16 (\<lambda>provides_count.
     bind (collect provides_count readModule_provides_entry) (\<lambda>provides.
     ret (Attr_Module module_name_index module_flags module_version_index
            requires_count requires exports_count exports opens_count opens
            uses_count uses_index provides_count provides))))))))))))))"

text \<open>
  The switch of \<^verbatim>\<open>_readAttributeInfo\<close> on the attribute name, in the order of the
  source, without the case \<^verbatim>\<open>'Code'\<close>, which \<open>readAttributeInfo\<close> below tests
  first because it is the one case that reads nested attributes. The case labels are
  distinct strings, so the order of the tests does not change which case runs.
\<close>

definition readAttributeInfo_other :: "nat list \<Rightarrow> nat \<Rightarrow> cursor
    \<Rightarrow> (error + attribute_body) \<times> cursor" where
  "readAttributeInfo_other attributeName attribute_length =
     (if attributeName = str ''RuntimeInvisibleAnnotations''
         \<or> attributeName = str ''RuntimeVisibleAnnotations'' then
        bind readUint16 (\<lambda>num_annotations.
        bind (collect num_annotations readAttributeAnnotation) (\<lambda>annotations.
        ret (Attr_Annotations num_annotations annotations)))
      else if attributeName = str ''Deprecated'' \<or> attributeName = str ''Synthetic'' then
        ret Attr_No_info
      else if attributeName = str ''InnerClasses'' then
        bind readUint16 (\<lambda>number_of_classes.
        bind (collect number_of_classes readUint16_4) (\<lambda>classes.
        ret (Attr_InnerClasses number_of_classes classes)))
      else if attributeName = str ''LocalVariableTable'' then
        bind readUint16 (\<lambda>local_variable_table_length.
        bind (collect local_variable_table_length readUint16_5) (\<lambda>local_variable_table.
        ret (Attr_LocalVariableTable local_variable_table_length local_variable_table)))
      else if attributeName = str ''LocalVariableTypeTable'' then
        bind readUint16 (\<lambda>local_variable_type_table_length.
        bind (collect local_variable_type_table_length readUint16_5) (\<lambda>local_variable_type_table.
        ret (Attr_LocalVariableTypeTable local_variable_type_table_length
               local_variable_type_table)))
      else if attributeName = str ''RuntimeInvisibleParameterAnnotations''
              \<or> attributeName = str ''RuntimeVisibleParameterAnnotations'' then
        bind readUint8 (\<lambda>num_parameters.
        bind (collect num_parameters readParameterAnnotation) (\<lambda>parameter_annotations.
        ret (Attr_ParameterAnnotations num_parameters parameter_annotations)))
      else if attributeName = str ''BootstrapMethods'' then
        bind readUint16 (\<lambda>num_bootstrap_methods.
        bind (collect num_bootstrap_methods readBootstrapMethod) (\<lambda>bootstrap_methods.
        ret (Attr_BootstrapMethods num_bootstrap_methods bootstrap_methods)))
      else if attributeName = str ''RuntimeInvisibleTypeAnnotations''
              \<or> attributeName = str ''RuntimeVisibleTypeAnnotations'' then
        bind readUint16 (\<lambda>num_annotations.
        bind (collect num_annotations readTypeAnnotation) (\<lambda>annotations.
        ret (Attr_TypeAnnotations num_annotations annotations)))
      else if attributeName = str ''SourceDebugExtension'' then
        bind (collect attribute_length readUint8) (\<lambda>debug_extension.
        ret (Attr_SourceDebugExtension debug_extension))
      else if attributeName = str ''SourceFile'' then
        bind readUint16 (\<lambda>sourcefile_index. ret (Attr_SourceFile sourcefile_index))
      else if attributeName = str ''EnclosingMethod'' then
        bind readUint16 (\<lambda>class_index.
        bind readUint16 (\<lambda>method_index.
        ret (Attr_EnclosingMethod class_index method_index)))
      else if attributeName = str ''AnnotationDefault'' then
        bind readElementValue (\<lambda>default_value. ret (Attr_AnnotationDefault default_value))
      else if attributeName = str ''MethodParameters'' then
        bind readUint8 (\<lambda>parameters_count.
        bind (collect parameters_count readUint16_2) (\<lambda>parameters.
        ret (Attr_MethodParameters parameters_count parameters)))
      else if attributeName = str ''Exceptions'' then
        bind readUint16 (\<lambda>number_of_exceptions.
        bind (collect number_of_exceptions readUint16) (\<lambda>exception_index_table.
        ret (Attr_Exceptions number_of_exceptions exception_index_table)))
      else if attributeName = str ''ConstantValue'' then
        bind readUint16 (\<lambda>constantvalue_index. ret (Attr_ConstantValue constantvalue_index))
      else if attributeName = str ''Signature'' then
        bind readUint16 (\<lambda>signature_index. ret (Attr_Signature signature_index))
      else if attributeName = str ''StackMap'' then
        bind readUint16 (\<lambda>number_of_entries.
        bind (collect number_of_entries readStackMap_entry) (\<lambda>entries.
        ret (Attr_StackMap number_of_entries entries)))
      else if attributeName = str ''StackMapTable'' then
        bind readUint16 (\<lambda>number_of_entries.
        bind (collect number_of_entries readStackMapTable_entry) (\<lambda>entries.
        ret (Attr_StackMapTable number_of_entries entries)))
      else if attributeName = str ''LineNumberTable'' then
        bind readUint16 (\<lambda>line_number_table_length.
        bind (collect line_number_table_length readUint16_2) (\<lambda>line_number_table.
        ret (Attr_LineNumberTable line_number_table_length line_number_table)))
      else if attributeName = str ''ModuleMainClass'' then
        bind readUint16 (\<lambda>main_class_index. ret (Attr_ModuleMainClass main_class_index))
      else if attributeName = str ''Module'' then readModule
      else if attributeName = str ''ModulePackages'' then
        bind readUint16 (\<lambda>package_count.
        bind (collect package_count readUint16) (\<lambda>package_index.
        ret (Attr_ModulePackages package_count package_index)))
      else if attributeName = str ''ModuleTarget'' then
        bind readUint16 (\<lambda>target_platform_index. ret (Attr_ModuleTarget target_platform_index))
      else if attributeName = str ''ModuleHashes'' then
        bind readUint16 (\<lambda>algorithm_index.
        bind readUint16 (\<lambda>hashes_table_length.
        bind (collect hashes_table_length readModuleHashes_entry) (\<lambda>hashes_table.
        ret (Attr_ModuleHashes algorithm_index hashes_table_length hashes_table))))
      else
        bind (collect attribute_length readUint8) (\<lambda>info. ret (Attr_Info info)))"

text \<open>The case \<^verbatim>\<open>'Code'\<close> up to \<^verbatim>\<open>attributes_count\<close>.\<close>

definition readCode_head :: "cursor
    \<Rightarrow> (error + nat \<times> nat \<times> nat \<times> nat list \<times> nat \<times> (nat \<times> nat \<times> nat \<times> nat) list \<times> nat)
        \<times> cursor" where
  "readCode_head =
     bind readUint16 (\<lambda>max_stack.
     bind readUint16 (\<lambda>max_locals.
     bind readUint32 (\<lambda>code_length.
     bind (collect code_length readUint8) (\<lambda>code.
     bind readUint16 (\<lambda>exception_table_length.
     bind (collect exception_table_length readUint16_4) (\<lambda>exception_table.
     bind readUint16 (\<lambda>attributes_count.
     ret (max_stack, max_locals, code_length, code, exception_table_length, exception_table,
          attributes_count))))))))"


text \<open>
  \<^verbatim>\<open>_readAttributeInfo\<close>, and the loop of \<^verbatim>\<open>_readAttributeInfoArray\<close>, which carries
  the array filled so far. The two header fields are read first; then the name is
  resolved through the constant pool of the class file being built.
\<close>

function readAttributeInfo :: "cp_info option list \<Rightarrow> cursor \<Rightarrow> (error + attribute_info) \<times> cursor"
  and readAttributeInfoArray_loop :: "cp_info option list \<Rightarrow> nat \<Rightarrow> attribute_info list \<Rightarrow> cursor
    \<Rightarrow> (error + attribute_info list) \<times> cursor"
where
  "readAttributeInfo constant_pool c =
     (case readUint16 c of
        (Inl e, c1) \<Rightarrow> (Inl e, c1)
      | (Inr attribute_name_index, c1) \<Rightarrow>
     (case readUint32 c1 of
        (Inl e, c2) \<Rightarrow> (Inl e, c2)
      | (Inr attribute_length, c2) \<Rightarrow>
     (case attributeNameOf constant_pool attribute_name_index of
        Inl e \<Rightarrow> (Inl e, c2)
      | Inr attributeName \<Rightarrow>
          if attributeName = str ''Code'' then
            (case readCode_head c2 of
               (Inl e, c3) \<Rightarrow> (Inl e, c3)
             | (Inr (max_stack, max_locals, code_length, code, exception_table_length,
                     exception_table, attributes_count), c3) \<Rightarrow>
                 (case readAttributeInfoArray_loop constant_pool attributes_count [] c3 of
                    (Inl e, c4) \<Rightarrow> (Inl e, c4)
                  | (Inr attributes, c4) \<Rightarrow>
                      (Inr (Attribute_info attribute_name_index attribute_length
                             (Attr_Code max_stack max_locals code_length code
                                exception_table_length exception_table attributes_count
                                attributes)), c4)))
          else
            (case readAttributeInfo_other attributeName attribute_length c2 of
               (Inl e, c3) \<Rightarrow> (Inl e, c3)
             | (Inr body, c3) \<Rightarrow>
                 (Inr (Attribute_info attribute_name_index attribute_length body), c3)))))"
| "readAttributeInfoArray_loop constant_pool n attributes c =
     (if n > 0 then
        (case readAttributeInfo constant_pool c of
           (Inl e, c1) \<Rightarrow> (Inl e, c1)
         | (Inr a, c1) \<Rightarrow> readAttributeInfoArray_loop constant_pool (n - 1) (attributes @ [a]) c1)
      else (Inr attributes, c))"
  by pat_completeness auto

section \<open>No decoder hands back more input than it was given\<close>

text \<open>
  The cursor a decoder leaves is never longer than the one it was given. This is what
  makes the nested attribute lists of \<^verbatim>\<open>Code\<close> terminate.
\<close>

definition shrinks :: "(cursor \<Rightarrow> (error + 'a) \<times> cursor) \<Rightarrow> bool" where
  "shrinks f = (\<forall>c. length (snd (f c)) \<le> length c)"

lemma shrinksD: "shrinks f \<Longrightarrow> f c = (r, c') \<Longrightarrow> length c' \<le> length c"
  by (metis shrinks_def snd_conv)

lemma readUint32_length: "readUint32 c = (r, c') \<Longrightarrow> length c' \<le> length c"
  by (auto simp: readUint32_def split: list.splits)

lemma shrinks_readUint8: "shrinks readUint8"
  unfolding shrinks_def by (metis readUint8_length surjective_pairing)

lemma shrinks_readUint16: "shrinks readUint16"
  unfolding shrinks_def by (metis readUint16_length surjective_pairing)

lemma shrinks_readUint32: "shrinks readUint32"
  unfolding shrinks_def by (metis readUint32_length surjective_pairing)

lemma shrinks_ret: "shrinks (ret x)"
  by (simp add: shrinks_def ret_def)

lemma shrinks_throw: "shrinks (throw e)"
  by (simp add: shrinks_def throw_def)

lemma shrinks_bind: "shrinks m \<Longrightarrow> (\<And>x. shrinks (f x)) \<Longrightarrow> shrinks (bind m f)"
proof -
  assume m: "shrinks m" and f: "\<And>x. shrinks (f x)"
  have "length (snd (bind m f c)) \<le> length c" for c
  proof -
    obtain r c1 where mc: "m c = (r, c1)" by (cases "m c")
    have l1: "length c1 \<le> length c" using m mc by (rule shrinksD)
    show ?thesis
    proof (cases r)
      case (Inl e)
      with mc l1 show ?thesis by (simp add: bind_def)
    next
      case (Inr x)
      obtain r2 c2 where fc: "f x c1 = (r2, c2)" by (cases "f x c1")
      have "length c2 \<le> length c1" using f fc by (rule shrinksD)
      with mc Inr fc l1 show ?thesis by (simp add: bind_def)
    qed
  qed
  then show ?thesis by (simp add: shrinks_def)
qed

lemma shrinks_if: "shrinks f \<Longrightarrow> shrinks g \<Longrightarrow> shrinks (if b then f else g)"
  by simp

lemma while_push_length:
  "shrinks f \<Longrightarrow> length (snd (snd (while_push n f s))) \<le> length (snd s)"
proof (induction n arbitrary: s)
  case 0
  then show ?case by simp
next
  case (Suc n)
  obtain r c1 where f: "f (snd s) = (r, c1)" by (cases "f (snd s)")
  have l: "length c1 \<le> length (snd s)" using Suc.prems f by (rule shrinksD)
  show ?case
  proof (cases r)
    case (Inl e)
    with f l show ?thesis by simp
  next
    case (Inr x)
    have "length (snd (snd (while_push n f (fst s @ [x], c1)))) \<le> length c1"
      using Suc.IH [OF Suc.prems, of "(fst s @ [x], c1)"] by simp
    with f l Inr show ?thesis by simp
  qed
qed

lemma shrinks_collect: "shrinks f \<Longrightarrow> shrinks (collect n f)"
  unfolding shrinks_def collect_def
proof
  fix c
  assume "\<forall>c. length (snd (f c)) \<le> length c"
  then have "shrinks f" by (simp add: shrinks_def)
  from while_push_length [OF this, of n "([], c)"]
  show "length (snd (case while_push n f ([], c) of
      (Inl e, arr, c') \<Rightarrow> (Inl e, c') | (Inr u, arr, c') \<Rightarrow> (Inr arr, c'))) \<le> length c"
    by (auto split: prod.splits sum.splits)
qed

lemma shrinks_readElementValue: "shrinks readElementValue"
  using readElementValue_dom_length(1) readElementValue_all_dom by (simp add: shrinks_def)

lemma shrinks_readAttributeAnnotation: "shrinks readAttributeAnnotation"
  using readElementValue_dom_length(3) readElementValue_all_dom by (simp add: shrinks_def)

lemmas shrinks_basic = shrinks_readUint8 shrinks_readUint16 shrinks_readUint32 shrinks_ret
  shrinks_throw shrinks_bind shrinks_if shrinks_collect shrinks_readElementValue
  shrinks_readAttributeAnnotation

lemma shrinks_readVerificationTypeInfo: "shrinks readVerificationTypeInfo"
  unfolding readVerificationTypeInfo_def by (intro shrinks_basic)

lemma shrinks_readStackMapTable_entry: "shrinks readStackMapTable_entry"
  unfolding readStackMapTable_entry_def by (intro shrinks_basic shrinks_readVerificationTypeInfo)

lemma shrinks_readUint16_n:
  "shrinks readUint16_2" "shrinks readUint16_3" "shrinks readUint16_4" "shrinks readUint16_5"
  "shrinks readUint8_2"
  unfolding readUint16_2_def readUint16_3_def readUint16_4_def readUint16_5_def readUint8_2_def
  by (intro shrinks_basic)+

lemma shrinks_readElementValuePair: "shrinks readElementValuePair"
  unfolding readElementValuePair_def by (intro shrinks_basic)

lemma shrinks_readTargetInfo: "shrinks (readTargetInfo t)"
  unfolding readTargetInfo_def by (intro shrinks_basic shrinks_readUint16_n)

lemma shrinks_readTypeAnnotation: "shrinks readTypeAnnotation"
  unfolding readTypeAnnotation_def
  by (intro shrinks_basic shrinks_readUint16_n shrinks_readTargetInfo shrinks_readElementValuePair)

lemma shrinks_entries:
  "shrinks readParameterAnnotation" "shrinks readBootstrapMethod" "shrinks readStackMap_entry"
  "shrinks readModule_to_entry" "shrinks readModule_provides_entry"
  "shrinks readModuleHashes_entry"
  unfolding readParameterAnnotation_def readBootstrapMethod_def readStackMap_entry_def
    readModule_to_entry_def readModule_provides_entry_def readModuleHashes_entry_def
  by (intro shrinks_basic shrinks_readVerificationTypeInfo)+

lemma shrinks_readModule: "shrinks readModule"
  unfolding readModule_def by (intro shrinks_basic shrinks_readUint16_n shrinks_entries)

lemma shrinks_readAttributeInfo_other: "shrinks (readAttributeInfo_other name len)"
  unfolding readAttributeInfo_other_def
  by (intro shrinks_basic shrinks_readUint16_n shrinks_entries shrinks_readModule
      shrinks_readTypeAnnotation shrinks_readStackMapTable_entry)

lemma shrinks_readCode_head: "shrinks readCode_head"
  unfolding readCode_head_def by (intro shrinks_basic shrinks_readUint16_n)

lemma readAttributeInfo_dom_length:
  "readAttributeInfo_readAttributeInfoArray_loop_dom (Inl (constant_pool, c))
     \<Longrightarrow> length (snd (readAttributeInfo constant_pool c)) \<le> length c"
  "readAttributeInfo_readAttributeInfoArray_loop_dom (Inr (pool, n, attributes, c1))
     \<Longrightarrow> length (snd (readAttributeInfoArray_loop pool n attributes c1)) \<le> length c1"
proof (induct rule: readAttributeInfo_readAttributeInfoArray_loop.pinduct)
  case (1 constant_pool c)
  note ps = readAttributeInfo.psimps [OF 1(1)]
  obtain r cA where u16: "readUint16 c = (r, cA)" by (cases "readUint16 c")
  have lA: "length cA \<le> length c" using u16 by (rule readUint16_length)
  obtain r2 cB where u32: "readUint32 cA = (r2, cB)" by (cases "readUint32 cA")
  have lB: "length cB \<le> length cA" using u32 by (rule readUint32_length)
  show ?case
  proof (cases r)
    case (Inl e)
    with u16 lA show ?thesis by (simp add: ps)
  next
    case idx: (Inr attribute_name_index)
    show ?thesis
    proof (cases r2)
      case (Inl e)
      with u16 u32 idx lA lB show ?thesis by (simp add: ps)
    next
      case len: (Inr attribute_length)
      show ?thesis
      proof (cases "attributeNameOf constant_pool attribute_name_index")
        case (Inl e)
        with u16 u32 idx len lA lB show ?thesis by (simp add: ps)
      next
        case name: (Inr attributeName)
        show ?thesis
        proof (cases "attributeName = str ''Code''")
          case False
          obtain r3 cC where other:
            "readAttributeInfo_other attributeName attribute_length cB = (r3, cC)"
            by (cases "readAttributeInfo_other attributeName attribute_length cB")
          have lC: "length cC \<le> length cB"
            using shrinks_readAttributeInfo_other other by (rule shrinksD)
          from u16 u32 idx len name False other lA lB lC show ?thesis
            by (cases r3) (simp_all add: ps)
        next
          case True
          obtain r3 cC where head: "readCode_head cB = (r3, cC)"
            by (cases "readCode_head cB")
          have lC: "length cC \<le> length cB"
            using shrinks_readCode_head head by (rule shrinksD)
          show ?thesis
          proof (cases r3)
            case (Inl e)
            with u16 u32 idx len name True head lA lB lC show ?thesis by (simp add: ps)
          next
            case h: (Inr h)
            obtain max_stack max_locals code_length code exception_table_length
              exception_table attributes_count
              where hh: "h = (max_stack, max_locals, code_length, code, exception_table_length,
                exception_table, attributes_count)"
              by (cases h)
            have "length (snd (readAttributeInfoArray_loop constant_pool attributes_count [] cC))
                \<le> length cC"
              by (rule 1(2) [OF u16 [symmetric] idx u32 [symmetric] len name True
                    head [symmetric] h hh [symmetric] refl refl refl refl refl])
            with u16 u32 idx len name True head h hh lA lB lC show ?thesis
              by (auto simp: ps split: prod.splits sum.splits)
          qed
        qed
      qed
    qed
  qed
next
  case (2 constant_pool n attributes c)
  note ps = readAttributeInfoArray_loop.psimps [OF 2(1)]
  show ?case
  proof (cases "n > 0")
    case False
    then show ?thesis by (subst ps) simp
  next
    case True
    obtain r cA where a: "readAttributeInfo constant_pool c = (r, cA)"
      by (cases "readAttributeInfo constant_pool c")
    have lA: "length cA \<le> length c" using 2(2) [OF True] a by simp
    show ?thesis
    proof (cases r)
      case (Inl e)
      with True a lA show ?thesis by (simp add: ps)
    next
      case (Inr v)
      have "length (snd (readAttributeInfoArray_loop constant_pool (n - 1) (attributes @ [v]) cA))
          \<le> length cA"
        using 2(3) [of r cA v] True a Inr by simp
      with True a Inr lA show ?thesis by (simp add: ps)
    qed
  qed
qed

lemma readAttributeInfo_all_dom: "All readAttributeInfo_readAttributeInfoArray_loop_dom"
proof (rule "readAttributeInfo_readAttributeInfoArray_loop.termination"
    [where R = "measures [
      (\<lambda>x. case x of Inl (pool, c) \<Rightarrow> length c | Inr (pool, n, attributes, c) \<Rightarrow> length c),
      (\<lambda>x. case x of Inl (pool, c) \<Rightarrow> 0 | Inr (pool, n, attributes, c) \<Rightarrow> Suc n)]"],
    goal_cases)
  case 1
  show ?case by simp
next
  case (2 constant_pool c x y b xa ya ba bb xb yb)
  have "length y < length c" using 2(1,2) by (metis readUint16_less)
  moreover have "length ya \<le> length y" using 2(3) by (metis readUint32_length)
  moreover have "length yb \<le> length ya"
    using 2(7) by (metis shrinks_readCode_head shrinksD)
  ultimately show ?case by simp
next
  case (3 constant_pool n attributes c)
  then show ?case by simp
next
  case (4 constant_pool n attributes c x y b)
  from readAttributeInfo_dom_length(1) [OF 4(4)] 4(2) have "length y \<le> length c"
    by (metis snd_conv)
  with 4(1) show ?case by auto
qed

termination readAttributeInfo
  by (rule readAttributeInfo_all_dom)

declare readAttributeInfo.simps [simp del] readAttributeInfoArray_loop.simps [simp del]

section \<open>Members and the class file\<close>

text \<open>
  \<^verbatim>\<open>_readAttributeInfoArray\<close>, \<^verbatim>\<open>_readCommonFieldMethodArray\<close> (a member is
  \<^verbatim>\<open>access_flags\<close>, \<^verbatim>\<open>name_index\<close>, \<^verbatim>\<open>descriptor_index\<close>,
  \<^verbatim>\<open>attributes_count\<close>, \<^verbatim>\<open>attributes\<close>) and \<^verbatim>\<open>_readInterfaces\<close>.
\<close>

definition readAttributeInfoArray :: "cp_info option list \<Rightarrow> nat \<Rightarrow> cursor
    \<Rightarrow> (error + attribute_info list) \<times> cursor" where
  "readAttributeInfoArray constant_pool attributes_count =
     readAttributeInfoArray_loop constant_pool attributes_count []"

datatype member_info = Member_info nat nat nat nat "attribute_info list"

definition readCommonFieldMethod :: "cp_info option list \<Rightarrow> cursor
    \<Rightarrow> (error + member_info) \<times> cursor" where
  "readCommonFieldMethod constant_pool =
     bind readUint16 (\<lambda>access_flags.
     bind readUint16 (\<lambda>name_index.
     bind readUint16 (\<lambda>descriptor_index.
     bind readUint16 (\<lambda>attributes_count.
     bind (readAttributeInfoArray constant_pool attributes_count) (\<lambda>attributes.
     ret (Member_info access_flags name_index descriptor_index attributes_count attributes))))))"

definition readCommonFieldMethodArray :: "cp_info option list \<Rightarrow> nat \<Rightarrow> cursor
    \<Rightarrow> (error + member_info list) \<times> cursor" where
  "readCommonFieldMethodArray constant_pool count = collect count (readCommonFieldMethod constant_pool)"

definition readInterfaces :: "nat \<Rightarrow> cursor \<Rightarrow> (error + nat list) \<times> cursor" where
  "readInterfaces interface_count = collect interface_count readUint16"

text \<open>
  The class file object starts empty and gains its properties one assignment at a time;
  a property not yet assigned is \<open>None\<close>. (The property \<^verbatim>\<open>fields\<close> is named
  \<open>fields_arr\<close> here.)
\<close>

record class_file =
  minor_version :: "nat option"
  major_version :: "nat option"
  constant_pool_count :: "nat option"
  constant_pool :: "cp_info option list option"
  access_flags :: "nat option"
  this_class :: "nat option"
  super_class :: "nat option"
  interfaces_count :: "nat option"
  interfaces :: "nat list option"
  fields_count :: "nat option"
  fields_arr :: "member_info list option"
  methods_count :: "nat option"
  methods :: "member_info list option"
  attributes_count :: "nat option"
  attributes :: "attribute_info list option"

definition new_ClassFile :: class_file where
  "new_ClassFile = \<lparr>minor_version = None, major_version = None, constant_pool_count = None,
     constant_pool = None, access_flags = None, this_class = None, super_class = None,
     interfaces_count = None, interfaces = None, fields_count = None, fields_arr = None,
     methods_count = None, methods = None, attributes_count = None, attributes = None\<rparr>"

text \<open>
  Inside \<^verbatim>\<open>read\<close> the state is the class file object and the buffer. \<open>on_buf m\<close>
  runs a decoder on the buffer; \<open>assign m upd\<close> is the statement
  \<^verbatim>\<open>this.classFile.x = m()\<close>, and hands the value on to the statements that read the
  property back.
\<close>

definition on_buf :: "(cursor \<Rightarrow> (error + 'a) \<times> cursor) \<Rightarrow> class_file \<times> cursor
    \<Rightarrow> (error + 'a) \<times> class_file \<times> cursor" where
  "on_buf m s = (case m (snd s) of (r, c') \<Rightarrow> (r, (fst s, c')))"

definition assign :: "(cursor \<Rightarrow> (error + 'a) \<times> cursor) \<Rightarrow> ('a \<Rightarrow> class_file \<Rightarrow> class_file)
    \<Rightarrow> class_file \<times> cursor \<Rightarrow> (error + 'a) \<times> class_file \<times> cursor" where
  "assign m upd s = (case m (snd s) of
      (Inl e, c') \<Rightarrow> (Inl e, (fst s, c'))
    | (Inr x, c') \<Rightarrow> (Inr x, (upd x (fst s), c')))"

text \<open>
  The body of \<^verbatim>\<open>read\<close> from the magic check to the last assignment. The four bytes of
  the magic are read one at a time and the first mismatch throws, without reading on.
\<close>

definition read_body :: "constant_type \<Rightarrow> class_file \<times> cursor
    \<Rightarrow> (error + unit) \<times> class_file \<times> cursor" where
  "read_body CT =
     bind (on_buf readUint8) (\<lambda>m0. if m0 \<noteq> 0xCA then throw Error_Invalid_MAGIC else
     bind (on_buf readUint8) (\<lambda>m1. if m1 \<noteq> 0xFE then throw Error_Invalid_MAGIC else
     bind (on_buf readUint8) (\<lambda>m2. if m2 \<noteq> 0xBA then throw Error_Invalid_MAGIC else
     bind (on_buf readUint8) (\<lambda>m3. if m3 \<noteq> 0xBE then throw Error_Invalid_MAGIC else
     bind (assign readUint16 (\<lambda>v cf. cf\<lparr>minor_version := Some v\<rparr>)) (\<lambda>minor_version.
     bind (assign readUint16 (\<lambda>v cf. cf\<lparr>major_version := Some v\<rparr>)) (\<lambda>major_version.
     bind (assign readUint16 (\<lambda>v cf. cf\<lparr>constant_pool_count := Some v\<rparr>))
       (\<lambda>constant_pool_count.
     bind (assign (readConstantPool CT (int constant_pool_count - 1))
             (\<lambda>v cf. cf\<lparr>constant_pool := Some v\<rparr>)) (\<lambda>constant_pool.
     bind (assign readUint16 (\<lambda>v cf. cf\<lparr>access_flags := Some v\<rparr>)) (\<lambda>access_flags.
     bind (assign readUint16 (\<lambda>v cf. cf\<lparr>this_class := Some v\<rparr>)) (\<lambda>this_class.
     bind (assign readUint16 (\<lambda>v cf. cf\<lparr>super_class := Some v\<rparr>)) (\<lambda>super_class.
     bind (assign readUint16 (\<lambda>v cf. cf\<lparr>interfaces_count := Some v\<rparr>)) (\<lambda>interfaces_count.
     bind (assign (readInterfaces interfaces_count) (\<lambda>v cf. cf\<lparr>interfaces := Some v\<rparr>))
       (\<lambda>interfaces.
     bind (assign readUint16 (\<lambda>v cf. cf\<lparr>fields_count := Some v\<rparr>)) (\<lambda>fields_count.
     bind (assign (readCommonFieldMethodArray constant_pool fields_count)
             (\<lambda>v cf. cf\<lparr>fields_arr := Some v\<rparr>)) (\<lambda>fields.
     bind (assign readUint16 (\<lambda>v cf. cf\<lparr>methods_count := Some v\<rparr>)) (\<lambda>methods_count.
     bind (assign (readCommonFieldMethodArray constant_pool methods_count)
             (\<lambda>v cf. cf\<lparr>methods := Some v\<rparr>)) (\<lambda>methods.
     bind (assign readUint16 (\<lambda>v cf. cf\<lparr>attributes_count := Some v\<rparr>)) (\<lambda>attributes_count.
     bind (assign (readAttributeInfoArray constant_pool attributes_count)
             (\<lambda>v cf. cf\<lparr>attributes := Some v\<rparr>)) (\<lambda>attributes.
     ret ())))))))))))))))))))"

text \<open>
  The reader object has the properties \<^verbatim>\<open>buf\<close> and \<^verbatim>\<open>classFile\<close> while a decode
  runs. \<^verbatim>\<open>read\<close> sets both before the magic check and deletes both before it returns;
  an exception leaves them as they were when it was thrown. The source is
  \<^verbatim>\<open>undefined\<close>, \<^verbatim>\<open>null\<close>, a string (a path) or bytes. \<^verbatim>\<open>readFromFile\<close> tests
  \<^verbatim>\<open>typeof process !== undefined\<close>, which holds everywhere (a string is compared with
  \<^verbatim>\<open>undefined\<close>), and hands the bytes of \<^verbatim>\<open>fs.readFileSync(path)\<close> to \<^verbatim>\<open>read\<close>; the
  file system \<open>fs\<close> is a parameter, giving the bytes of a path or the exception.
\<close>

record reader =
  buf :: "cursor option"
  classFile :: "class_file option"

datatype source = Src_undefined | Src_null | Src_path string | Src_bytes "byte list"

definition read_bytes :: "constant_type \<Rightarrow> reader \<Rightarrow> byte list \<Rightarrow> (error + class_file) \<times> reader" where
  "read_bytes CT this bytes =
     (case read_body CT (new_ClassFile, bytes) of
        (Inl e, (cf, c)) \<Rightarrow> (Inl e, this\<lparr>buf := Some c, classFile := Some cf\<rparr>)
      | (Inr u, (cf, c)) \<Rightarrow> (Inr cf, this\<lparr>buf := None, classFile := None\<rparr>))"

definition readFromFile :: "constant_type \<Rightarrow> (string \<Rightarrow> error + byte list) \<Rightarrow> reader \<Rightarrow> string
    \<Rightarrow> (error + class_file) \<times> reader" where
  "readFromFile CT fs this path =
     (case fs path of
        Inl e \<Rightarrow> (Inl e, this)
      | Inr bytes \<Rightarrow> read_bytes CT this bytes)"

definition read :: "constant_type \<Rightarrow> (string \<Rightarrow> error + byte list) \<Rightarrow> reader \<Rightarrow> source
    \<Rightarrow> (error + class_file) \<times> reader" where
  "read CT fs this source =
     (case source of
        Src_undefined \<Rightarrow> (Inl (TypeError ''source cannot be null or undefined''), this)
      | Src_null \<Rightarrow> (Inl (TypeError ''source cannot be null or undefined''), this)
      | Src_path path \<Rightarrow> readFromFile CT fs this path
      | Src_bytes bytes \<Rightarrow> read_bytes CT this bytes)"



text \<open>
  A reader just constructed has neither property. \<open>no_fs\<close> is a file system on which
  every read of a path throws.
\<close>

definition new_reader :: reader where
  "new_reader = \<lparr>buf = None, classFile = None\<rparr>"

definition no_fs :: "string \<Rightarrow> error + byte list" where
  "no_fs path = Inl (Error_fs path)"

section \<open>Reading runs of bytes\<close>

lemma while_push_readUint8_enough:
  "n \<le> length c \<Longrightarrow>
     while_push n readUint8 (acc, c) = (Inr (), (acc @ map unat (take n c), drop n c))"
proof (induction n arbitrary: acc c)
  case 0
  then show ?case by simp
next
  case (Suc n)
  then obtain b c1 where c: "c = b # c1" by (cases c) auto
  with Suc.prems have "n \<le> length c1" by simp
  from Suc.IH [OF this, of "acc @ [unat b]"] c show ?case
    by (simp add: readUint8_Cons)
qed


lemma collect_readUint8_enough:
  "n \<le> length c \<Longrightarrow> collect n readUint8 c = (Inr (map unat (take n c)), drop n c)"
  by (simp add: collect_def while_push_readUint8_enough)


section \<open>The recursive decoders in sequenced form\<close>

text \<open>
  The loops written out inside the recursive decoders are the generic push loop, and the
  recursive decoders are sequences of reads like the others.
\<close>

lemma while_push_arr_length:
  "while_push n f (acc, c) = (Inr u, (arr, c')) \<Longrightarrow> length arr = length acc + n"
proof (induction n arbitrary: acc c)
  case 0
  then show ?case by simp
next
  case (Suc n)
  obtain r c1 where f: "f c = (r, c1)" by (cases "f c")
  show ?case
  proof (cases r)
    case (Inl e)
    with Suc.prems f show ?thesis by simp
  next
    case (Inr x)
    with Suc.prems f have "while_push n f (acc @ [x], c1) = (Inr u, (arr, c'))" by simp
    from Suc.IH [OF this] show ?thesis by simp
  qed
qed

lemma collect_length: "collect n f c = (Inr xs, c') \<Longrightarrow> length xs = n"
proof -
  assume a: "collect n f c = (Inr xs, c')"
  obtain r arr c1 where w: "while_push n f ([], c) = (r, (arr, c1))"
    by (cases "while_push n f ([], c)") auto
  with a obtain u where "r = Inr u" "arr = xs"
    by (cases r) (auto simp: collect_def)
  with w while_push_arr_length [of n f "[]" c u xs c1] show ?thesis by simp
qed

lemma readElementValue_values_while_push:
  "readElementValue_values n vs c =
     (case while_push n readElementValue (vs, c) of
        (Inl e, (arr, c')) \<Rightarrow> (Inl e, c')
      | (Inr u, (arr, c')) \<Rightarrow> (Inr arr, c'))"
proof (induction n arbitrary: vs c)
  case 0
  show ?case by (simp add: readElementValue_values.simps)
next
  case (Suc n)
  obtain r c1 where f: "readElementValue c = (r, c1)" by (cases "readElementValue c")
  show ?case
  proof (cases r)
    case (Inl e)
    with f show ?thesis by (simp add: readElementValue_values.simps [of "Suc n"])
  next
    case (Inr v)
    with f Suc.IH [of "vs @ [v]" c1] show ?thesis
      by (simp add: readElementValue_values.simps [of "Suc n"])
  qed
qed

lemma readElementValue_values_collect:
  "readElementValue_values n [] c = collect n readElementValue c"
  by (simp add: readElementValue_values_while_push collect_def)

lemma readAttributeAnnotation_pairs_while_push:
  "readAttributeAnnotation_pairs n ps c =
     (case while_push n readElementValuePair (ps, c) of
        (Inl e, (arr, c1)) \<Rightarrow> (Inl e, c1)
      | (Inr u, (arr, c1)) \<Rightarrow> (Inr arr, c1))"
proof (induction n arbitrary: ps c)
  case 0
  show ?case by (simp add: readAttributeAnnotation_pairs.simps)
next
  case (Suc n)
  obtain r cA where u16: "readUint16 c = (r, cA)" by (cases "readUint16 c")
  show ?case
  proof (cases r)
    case (Inl e)
    with u16 show ?thesis
      by (simp add: readAttributeAnnotation_pairs.simps [of "Suc n"] readElementValuePair_def
          bind_def)
  next
    case name: (Inr element_name_index)
    obtain r2 cB where ev: "readElementValue cA = (r2, cB)" by (cases "readElementValue cA")
    show ?thesis
    proof (cases r2)
      case (Inl e)
      with u16 name ev show ?thesis
        by (simp add: readAttributeAnnotation_pairs.simps [of "Suc n"] readElementValuePair_def
            bind_def)
    next
      case (Inr v)
      with u16 name ev Suc.IH [of "ps @ [(element_name_index, v)]" cB] show ?thesis
        by (simp add: readAttributeAnnotation_pairs.simps [of "Suc n"] readElementValuePair_def
            bind_def ret_def)
    qed
  qed
qed

lemma readAttributeAnnotation_pairs_collect:
  "readAttributeAnnotation_pairs n [] c = collect n readElementValuePair c"
  by (simp add: readAttributeAnnotation_pairs_while_push collect_def)






section \<open>Every element read consumes input\<close>































section \<open>Claims about attributes\<close>

definition known_attribute_names :: "nat list list" where
  "known_attribute_names = map str
     [''RuntimeInvisibleAnnotations'', ''RuntimeVisibleAnnotations'', ''Deprecated'',
      ''Synthetic'', ''InnerClasses'', ''LocalVariableTable'', ''LocalVariableTypeTable'',
      ''RuntimeInvisibleParameterAnnotations'', ''RuntimeVisibleParameterAnnotations'',
      ''BootstrapMethods'', ''RuntimeInvisibleTypeAnnotations'',
      ''RuntimeVisibleTypeAnnotations'', ''SourceDebugExtension'', ''SourceFile'',
      ''EnclosingMethod'', ''AnnotationDefault'', ''MethodParameters'', ''Exceptions'',
      ''ConstantValue'', ''Signature'', ''StackMap'', ''StackMapTable'', ''Code'',
      ''LineNumberTable'', ''ModuleMainClass'', ''Module'', ''ModulePackages'',
      ''ModuleTarget'', ''ModuleHashes'']"

lemma readAttributeInfo_other_unknown:
  assumes "name \<notin> set known_attribute_names"
  shows "readAttributeInfo_other name len =
     bind (collect len readUint8) (\<lambda>info. ret (Attr_Info info))"
  using assms unfolding known_attribute_names_def readAttributeInfo_other_def
  by simp

text \<open>
  C3: for an attribute whose resolved name is none of the names the switch knows,
  decoding succeeds whenever \<open>attribute_length\<close> bytes remain after the header, whatever
  those bytes are, and the attribute holds exactly those \<open>attribute_length\<close> bytes, in
  order, as its \<^verbatim>\<open>info\<close>; the cursor stands right after them.
\<close>

theorem readAttributeInfo_unknown_name:
  assumes "attributeNameOf pool (unat i0 * 256 + unat i1) = Inr name"
    and "name \<notin> set known_attribute_names"
    and "len = unat l0 * 16777216 + unat l1 * 65536 + unat l2 * 256 + unat l3"
    and "len \<le> length rest"
  shows "readAttributeInfo pool (i0 # i1 # l0 # l1 # l2 # l3 # rest) =
     (Inr (Attribute_info (unat i0 * 256 + unat i1) len (Attr_Info (map unat (take len rest)))),
      drop len rest)"
proof -
  have "name \<noteq> str ''Code''"
    using assms(2) by (auto simp: known_attribute_names_def)
  moreover have "readAttributeInfo_other name len rest =
      (Inr (Attr_Info (map unat (take len rest))), drop len rest)"
    using assms(4)
    by (simp add: readAttributeInfo_other_unknown [OF assms(2)] bind_def ret_def
        collect_readUint8_enough)
  ultimately show ?thesis
    using assms(1,3)
    by (simp add: readAttributeInfo.simps readUint16_Cons readUint32_Cons)
qed


theorem readAttributeInfo_unknown_name_witness:
  "attributeNameOf [None, Some (CP_Utf8 1 3 [70, 111, 111])] (unat (0 :: byte) * 256 + unat (1 :: byte))
     = Inr [70, 111, 111]
   \<and> [70, 111, 111] \<notin> set known_attribute_names
   \<and> (2 :: nat) \<le> length [9, 8, 7 :: byte]
   \<and> readAttributeInfo [None, Some (CP_Utf8 1 3 [70, 111, 111])] [0, 1, 0, 0, 0, 2, 9, 8, 7] =
        (Inr (Attribute_info 1 2 (Attr_Info [9, 8])), [7])"
proof -
  have n: "attributeNameOf [None, Some (CP_Utf8 1 3 [70, 111, 111])]
      (unat (0 :: byte) * 256 + unat (1 :: byte)) = Inr [70, 111, 111]"
    by (simp add: attributeNameOf_def String_fromCharCode_def)
  have u: "[70, 111, 111] \<notin> set known_attribute_names"
    by (simp add: known_attribute_names_def str_def)
  have l: "(2 :: nat) = unat (0 :: byte) * 16777216 + unat (0 :: byte) * 65536
      + unat (0 :: byte) * 256 + unat (2 :: byte)"
    by simp
  have b: "(2 :: nat) \<le> length [9, 8, 7 :: byte]" by simp
  from readAttributeInfo_unknown_name [OF n u l b] n u b show ?thesis by simp
qed

section \<open>Claims about element values\<close>

text \<open>
  C4: an element value is decoded by its tag byte. The tags B, C, D, F, I, J, S, Z and s
  read one u16 constant index; e reads two u16 (type name index, const name index); c
  reads one u16 class info index; the tag of an array reads a u16 count and then that
  many element values, each decoded by this same function; the tag of an annotation reads
  one annotation, that is a u16 type index, a u16 count and that many pairs of a u16
  element name index and an element value decoded by this same function; any other tag
  byte makes the decode throw.
\<close>

theorem readElementValue_by_tag:
  "(t \<in> {66, 67, 68, 70, 73, 74, 83, 90, 115} \<longrightarrow>
      readElementValue (t # b0 # b1 # rest) =
        (Inr (Element_value (unat t) (Const_value_index (unat b0 * 256 + unat b1))), rest))
   \<and> readElementValue (101 # b0 # b1 # b2 # b3 # rest) =
        (Inr (Element_value 101
               (Enum_const_value (unat b0 * 256 + unat b1) (unat b2 * 256 + unat b3))), rest)
   \<and> readElementValue (99 # b0 # b1 # rest) =
        (Inr (Element_value 99 (Class_info_index (unat b0 * 256 + unat b1))), rest)
   \<and> readElementValue (91 # b0 # b1 # rest) =
        (case collect (unat b0 * 256 + unat b1) readElementValue rest of
           (Inl e, c) \<Rightarrow> (Inl e, c)
         | (Inr vs, c) \<Rightarrow>
             (Inr (Element_value 91 (Array_value (unat b0 * 256 + unat b1) vs)), c))
   \<and> (\<forall>vs c. collect (unat b0 * 256 + unat b1) readElementValue rest = (Inr vs, c)
          \<longrightarrow> length vs = unat b0 * 256 + unat b1)
   \<and> readElementValue (64 # b0 # b1 # b2 # b3 # rest) =
        (case collect (unat b2 * 256 + unat b3) readElementValuePair rest of
           (Inl e, c) \<Rightarrow> (Inl e, c)
         | (Inr ps, c) \<Rightarrow>
             (Inr (Element_value 64 (Annotation_value
                    (Annotation (unat b0 * 256 + unat b1) (unat b2 * 256 + unat b3) ps))), c))
   \<and> readElementValuePair (b0 # b1 # rest) =
        (case readElementValue rest of
           (Inl e, c) \<Rightarrow> (Inl e, c)
         | (Inr v, c) \<Rightarrow> (Inr (unat b0 * 256 + unat b1, v), c))
   \<and> (\<forall>ps c. collect (unat b2 * 256 + unat b3) readElementValuePair rest = (Inr ps, c)
          \<longrightarrow> length ps = unat b2 * 256 + unat b3)
   \<and> (t \<notin> {66, 67, 68, 70, 73, 74, 83, 90, 115, 101, 99, 91, 64} \<longrightarrow>
        readElementValue (t # rest) = (Inl (Error_Unexpected_tag (unat t)), rest))"
proof (intro conjI impI allI)
  assume "t \<in> {66, 67, 68, 70, 73, 74, 83, 90, 115}"
  then have "unat t \<in> {66, 67, 68, 70, 73, 74, 83, 90, 115}"
    by auto
  then show "readElementValue (t # b0 # b1 # rest) =
        (Inr (Element_value (unat t) (Const_value_index (unat b0 * 256 + unat b1))), rest)"
    by (auto simp: readElementValue.simps readUint8_Cons readUint16_Cons)
next
  show "readElementValue (101 # b0 # b1 # b2 # b3 # rest) =
        (Inr (Element_value 101
               (Enum_const_value (unat b0 * 256 + unat b1) (unat b2 * 256 + unat b3))), rest)"
    by (simp add: readElementValue.simps readUint8_Cons readUint16_Cons)
next
  show "readElementValue (99 # b0 # b1 # rest) =
        (Inr (Element_value 99 (Class_info_index (unat b0 * 256 + unat b1))), rest)"
    by (simp add: readElementValue.simps readUint8_Cons readUint16_Cons)
next
  show "readElementValue (91 # b0 # b1 # rest) =
        (case collect (unat b0 * 256 + unat b1) readElementValue rest of
           (Inl e, c) \<Rightarrow> (Inl e, c)
         | (Inr vs, c) \<Rightarrow>
             (Inr (Element_value 91 (Array_value (unat b0 * 256 + unat b1) vs)), c))"
    by (simp add: readElementValue.simps [of "91 # b0 # b1 # rest"] readUint8_Cons
        readUint16_Cons readElementValue_values_collect)
next
  fix vs c
  assume "collect (unat b0 * 256 + unat b1) readElementValue rest = (Inr vs, c)"
  then show "length vs = unat b0 * 256 + unat b1" by (rule collect_length)
next
  show "readElementValue (64 # b0 # b1 # b2 # b3 # rest) =
        (case collect (unat b2 * 256 + unat b3) readElementValuePair rest of
           (Inl e, c) \<Rightarrow> (Inl e, c)
         | (Inr ps, c) \<Rightarrow>
             (Inr (Element_value 64 (Annotation_value
                    (Annotation (unat b0 * 256 + unat b1) (unat b2 * 256 + unat b3) ps))), c))"
    by (simp add: readElementValue.simps [of "64 # b0 # b1 # b2 # b3 # rest"] readUint8_Cons
        readAttributeAnnotation.simps [of "b0 # b1 # b2 # b3 # rest"] readUint16_Cons
        readAttributeAnnotation_pairs_collect split: prod.splits sum.splits)
next
  show "readElementValuePair (b0 # b1 # rest) =
        (case readElementValue rest of
           (Inl e, c) \<Rightarrow> (Inl e, c)
         | (Inr v, c) \<Rightarrow> (Inr (unat b0 * 256 + unat b1, v), c))"
    by (simp add: readElementValuePair_def bind_def ret_def readUint16_Cons
        split: prod.splits sum.splits)
next
  fix ps c
  assume "collect (unat b2 * 256 + unat b3) readElementValuePair rest = (Inr ps, c)"
  then show "length ps = unat b2 * 256 + unat b3" by (rule collect_length)
next
  assume "t \<notin> {66, 67, 68, 70, 73, 74, 83, 90, 115, 101, 99, 91, 64}"
  then have "unat t \<notin> {66, 67, 68, 70, 73, 74, 83, 90, 115, 101, 99, 91, 64}"
    by (simp add: word_unat_eq_iff)
  then show "readElementValue (t # rest) = (Inl (Error_Unexpected_tag (unat t)), rest)"
    by (simp add: readElementValue.simps readUint8_Cons)
qed

theorem readElementValue_by_tag_witness:
  "(66 :: byte) \<in> {66, 67, 68, 70, 73, 74, 83, 90, 115}
   \<and> readElementValue [66, 0, 5] = (Inr (Element_value 66 (Const_value_index 5)), [])
   \<and> collect 1 readElementValue [66, 0, 5] = (Inr [Element_value 66 (Const_value_index 5)], [])
   \<and> readElementValue [91, 0, 1, 66, 0, 5] =
        (Inr (Element_value 91 (Array_value 1 [Element_value 66 (Const_value_index 5)])), [])
   \<and> collect 1 readElementValuePair [0, 2, 66, 0, 5] =
        (Inr [(2, Element_value 66 (Const_value_index 5))], [])
   \<and> readElementValue [64, 0, 7, 0, 1, 0, 2, 66, 0, 5] =
        (Inr (Element_value 64 (Annotation_value
               (Annotation 7 1 [(2, Element_value 66 (Const_value_index 5))]))), [])
   \<and> (0 :: byte) \<notin> {66, 67, 68, 70, 73, 74, 83, 90, 115, 101, 99, 91, 64}
   \<and> readElementValue [0, 0, 5] = (Inl (Error_Unexpected_tag 0), [0, 5])"
proof -
  have a: "readElementValue [66, 0, 5] = (Inr (Element_value 66 (Const_value_index 5)), [])"
    using readElementValue_by_tag [where t = 66 and ?b0.0 = 0 and ?b1.0 = 5 and rest = "[]"]
    by simp
  have b: "collect 1 readElementValue [66, 0, 5] =
      (Inr [Element_value 66 (Const_value_index 5)], [])"
    by (simp add: collect_def a)
  have c: "readElementValue [91, 0, 1, 66, 0, 5] =
        (Inr (Element_value 91 (Array_value 1 [Element_value 66 (Const_value_index 5)])), [])"
    using readElementValue_by_tag [where ?b0.0 = 0 and ?b1.0 = 1 and rest = "[66, 0, 5]"] b
    by simp
  have p: "readElementValuePair [0, 2, 66, 0, 5] =
      (Inr (2, Element_value 66 (Const_value_index 5)), [])"
    using readElementValue_by_tag [where ?b0.0 = 0 and ?b1.0 = 2 and rest = "[66, 0, 5]"] a
    by simp
  have q: "collect 1 readElementValuePair [0, 2, 66, 0, 5] =
        (Inr [(2, Element_value 66 (Const_value_index 5))], [])"
    by (simp add: collect_def p)
  have r: "readElementValue [64, 0, 7, 0, 1, 0, 2, 66, 0, 5] =
        (Inr (Element_value 64 (Annotation_value
               (Annotation 7 1 [(2, Element_value 66 (Const_value_index 5))]))), [])"
    using readElementValue_by_tag [where ?b0.0 = 0 and ?b1.0 = 7 and ?b2.0 = 0 and ?b3.0 = 1
        and rest = "[0, 2, 66, 0, 5]"] q
    by simp
  have d: "readElementValue [0, 0, 5] = (Inl (Error_Unexpected_tag 0), [0, 5])"
    using readElementValue_by_tag [where t = 0 and rest = "[0, 5]"]
    by simp
  from a b c q r d show ?thesis by simp
qed

section \<open>Claims about length-prefixed collections\<close>




section \<open>Claims about the whole decode\<close>

text \<open>
  C10: called with \<^verbatim>\<open>null\<close> or \<^verbatim>\<open>undefined\<close>, \<^verbatim>\<open>read\<close> throws a TypeError and
  leaves the reader object as it was: no buffer has been wrapped, so no input has been
  consumed, and no class file object has been created. The file system is not consulted.
\<close>

theorem read_null_or_undefined:
  "read CT fs this Src_undefined =
     (Inl (TypeError ''source cannot be null or undefined''), this)
   \<and> read CT fs this Src_null =
     (Inl (TypeError ''source cannot be null or undefined''), this)"
  by (simp add: read_def)

text \<open>
  C8: decoding is deterministic. The outcome of \<^verbatim>\<open>read\<close> on a byte sequence (the tree,
  or the exception) depends on the bytes alone: not on what an earlier call left in the
  reader object, and not on the file system. In particular a second run on the same
  reader, starting from the state the first run left, has the same outcome.
\<close>

theorem read_deterministic:
  "fst (read CT fs1 this1 (Src_bytes bytes)) = fst (read CT fs2 this2 (Src_bytes bytes))
   \<and> fst (read CT fs (snd (read CT fs this (Src_bytes bytes))) (Src_bytes bytes))
       = fst (read CT fs this (Src_bytes bytes))"
  by (simp add: read_def read_bytes_def split: prod.splits sum.splits)


text \<open>
  The tags that some case of the switch in \<^verbatim>\<open>_readConstantPoolEntry\<close> names: the
  fourteen kinds of the Java 8 format, and PACKAGE and MODULE.
\<close>

definition known_tags :: "constant_type \<Rightarrow> nat set" where
  "known_tags CT = {UTF8 CT, INTEGER CT, FLOAT CT, LONG CT, DOUBLE CT, PACKAGE CT, MODULE CT,
     CLASS CT, STRING CT, FIELDREF CT, METHODREF CT, INTERFACE_METHODREF CT, NAME_AND_TYPE CT,
     METHOD_HANDLE CT, METHOD_TYPE CT, INVOKE_DYNAMIC CT}"

lemma readConstantPoolEntry_unknown:
  "unat t \<notin> known_tags CT \<Longrightarrow>
     readConstantPoolEntry CT (t # rest) = (Inl (Error_Unexpected_tag (unat t)), rest)"
  by (simp add: known_tags_def readConstantPoolEntry_def bind_def throw_def readUint8_Cons)

text \<open>
  When the loop, asked for \<open>k\<close> slots, fills exactly \<open>k\<close> slots, a loop asked for
  \<open>k + m\<close> slots goes through the same entries and then continues for \<open>m\<close> more.
\<close>

lemma readConstantPool_loop_prefix:
  "readConstantPool_loop CT k pool c = (Inr pool1, c1) \<Longrightarrow> 0 \<le> k
     \<Longrightarrow> length pool1 = length pool + nat k \<Longrightarrow> 0 \<le> m
     \<Longrightarrow> readConstantPool_loop CT (k + m) pool c = readConstantPool_loop CT m pool1 c1"
proof (induction CT k pool c rule: readConstantPool_loop.induct)
  case (1 CT pool_size pool c)
  show ?case
  proof (cases "pool_size > 0")
    case False
    with "1.prems" have "pool_size = 0" by simp
    with "1.prems" show ?thesis by (simp add: readConstantPool_loop.simps [of CT 0])
  next
    case True
    obtain r cA where e: "readConstantPoolEntry CT c = (r, cA)"
      by (cases "readConstantPoolEntry CT c")
    show ?thesis
    proof (cases r)
      case (Inl err)
      with True e "1.prems"(1) show ?thesis
        by (simp add: readConstantPool_loop.simps [of CT pool_size])
    next
      case (Inr entry)
      show ?thesis
      proof (cases "cp_tag entry = LONG CT \<or> cp_tag entry = DOUBLE CT")
        case wide: True
        have run: "readConstantPool_loop CT (pool_size - 1 - 1) (pool @ [Some entry, None]) cA
            = (Inr pool1, c1)"
          using "1.prems"(1) True e Inr wide
          by (simp add: readConstantPool_loop.simps [of CT pool_size])
        have two: "2 \<le> pool_size"
        proof (rule ccontr)
          assume "\<not> 2 \<le> pool_size"
          with True have "pool_size = 1" by simp
          with run have "pool1 = pool @ [Some entry, None]"
            by (simp add: readConstantPool_loop.simps [of CT "- 1"])
          with "1.prems"(3) \<open>pool_size = 1\<close> show False by simp
        qed
        have len: "length pool1 = length (pool @ [Some entry, None]) + nat (pool_size - 1 - 1)"
          using "1.prems"(3) two by simp
        have "readConstantPool_loop CT (pool_size - 1 - 1 + m) (pool @ [Some entry, None]) cA
            = readConstantPool_loop CT m pool1 c1"
          using "1.IH"(1) [OF True e [symmetric] Inr wide run _ len "1.prems"(4)] two by simp
        moreover have "pool_size - 1 - 1 + m = pool_size + m - 1 - 1" by simp
        ultimately have "readConstantPool_loop CT (pool_size + m - 1 - 1)
            (pool @ [Some entry, None]) cA = readConstantPool_loop CT m pool1 c1"
          by (simp only:)
        then show ?thesis
          using True "1.prems"(4) e Inr wide
          by (simp add: readConstantPool_loop.simps [of CT "pool_size + m"])
      next
        case narrow: False
        have run: "readConstantPool_loop CT (pool_size - 1) (pool @ [Some entry]) cA
            = (Inr pool1, c1)"
          using "1.prems"(1) True e Inr narrow
          by (simp add: readConstantPool_loop.simps [of CT pool_size])
        have len: "length pool1 = length (pool @ [Some entry]) + nat (pool_size - 1)"
          using "1.prems"(3) True by simp
        have "readConstantPool_loop CT (pool_size - 1 + m) (pool @ [Some entry]) cA
            = readConstantPool_loop CT m pool1 c1"
          using "1.IH"(2) [OF True e [symmetric] Inr narrow run _ len "1.prems"(4)] True by simp
        moreover have "pool_size - 1 + m = pool_size + m - 1" by simp
        ultimately have "readConstantPool_loop CT (pool_size + m - 1)
            (pool @ [Some entry]) cA = readConstantPool_loop CT m pool1 c1"
          by (simp only:)
        then show ?thesis
          using True "1.prems"(4) e Inr narrow
          by (simp add: readConstantPool_loop.simps [of CT "pool_size + m"])
      qed
    qed
  qed
qed

lemma readConstantPool_unknown_tag:
  assumes "readConstantPool_loop CT k [None] body = (Inr pool1, t # rest)"
    and "length pool1 = 1 + nat k" and "0 \<le> k" and "k < pool_size"
    and "unat t \<notin> known_tags CT"
  shows "readConstantPool CT pool_size body = (Inl (Error_Unexpected_tag (unat t)), rest)"
proof -
  have "readConstantPool_loop CT (k + (pool_size - k)) [None] body
      = readConstantPool_loop CT (pool_size - k) pool1 (t # rest)"
    using assms(1,2,3,4) by (intro readConstantPool_loop_prefix) simp_all
  moreover have "readConstantPool_loop CT (pool_size - k) pool1 (t # rest)
      = (Inl (Error_Unexpected_tag (unat t)), rest)"
    using assms(4) readConstantPoolEntry_unknown [OF assms(5), of rest]
    by (simp add: readConstantPool_loop.simps [of CT "pool_size - k"])
  ultimately show ?thesis by (simp add: readConstantPool_def)
qed

text \<open>
  The fourteen tag codes of the Java 8 class file format (JVMS 8, table 4.4-A): the
  fourteen known codes that C5 speaks of.
\<close>

definition java8_constant_tags :: "nat set" where
  "java8_constant_tags = {1, 3, 4, 5, 6, 7, 8, 9, 10, 11, 12, 15, 16, 18}"

text \<open>
  C5, as the specification states it, fails: the reader knows sixteen tag codes, not
  fourteen. With the tag numbers of the class file format, the tag 19 of a module entry
  is none of the fourteen, and a class file whose only constant is such an entry decodes
  to a tree.
\<close>

theorem module_tag_decodes:
  "19 \<notin> java8_constant_tags
   \<and> read jvms_ConstantType no_fs new_reader
        (Src_bytes [0xCA, 0xFE, 0xBA, 0xBE, 0, 0, 0, 53, 0, 2, 19, 0, 1,
                    0, 0, 0, 0, 0, 0, 0, 0, 0, 0, 0, 0, 0, 0]) =
       (Inr \<lparr>minor_version = Some 0, major_version = Some 53, constant_pool_count = Some 2,
              constant_pool = Some [None, Some (CP_Name_index 19 1)], access_flags = Some 0,
              this_class = Some 0, super_class = Some 0, interfaces_count = Some 0,
              interfaces = Some [], fields_count = Some 0, fields_arr = Some [],
              methods_count = Some 0, methods = Some [], attributes_count = Some 0,
              attributes = Some []\<rparr>,
        new_reader)"
  by (simp add: java8_constant_tags_def read_def read_bytes_def read_body_def bind_def
      on_buf_def assign_def throw_def ret_def readUint8_Cons readUint16_Cons
      readConstantPool_def readConstantPool_loop.simps [of _ 1]
      readConstantPool_loop.simps [of _ 0] readConstantPoolEntry_def jvms_ConstantType_def
      new_ClassFile_def new_reader_def readInterfaces_def readCommonFieldMethodArray_def
      readAttributeInfoArray_def collect_def readAttributeInfoArray_loop.simps [of _ 0])

text \<open>
  C5 (amended): an input in which the tag byte of a constant-pool entry is none of the
  sixteen tag codes the reader knows (the fourteen kinds of the Java 8 format, and
  PACKAGE and MODULE) makes the whole decode fail with the error \<^verbatim>\<open>Unexpected tag\<close>,
  and no class file is returned. The entry is the one after the first \<open>k\<close> slots of the
  pool: the pool loop fills exactly \<open>k\<close> slots from \<open>body\<close> and stands before the byte
  \<open>t\<close>, and the declared count asks for more than \<open>k\<close> slots.
\<close>

theorem read_unknown_constant_tag:
  assumes "readConstantPool_loop CT k [None] body = (Inr pool1, t # rest)"
    and "length pool1 = 1 + nat k" and "0 \<le> k"
    and "k < int (unat n0 * 256 + unat n1) - 1"
    and "unat t \<notin> known_tags CT"
  shows "read CT fs this
           (Src_bytes (0xCA # 0xFE # 0xBA # 0xBE # a0 # a1 # b0 # b1 # n0 # n1 # body)) =
         (Inl (Error_Unexpected_tag (unat t)),
          this\<lparr>buf := Some rest,
               classFile := Some (new_ClassFile\<lparr>minor_version := Some (unat a0 * 256 + unat a1),
                 major_version := Some (unat b0 * 256 + unat b1),
                 constant_pool_count := Some (unat n0 * 256 + unat n1)\<rparr>)\<rparr>)"
proof -
  have "readConstantPool CT (int (unat n0 * 256 + unat n1) - 1) body
      = (Inl (Error_Unexpected_tag (unat t)), rest)"
    using assms by (rule readConstantPool_unknown_tag)
  then show ?thesis
    by (simp add: read_def read_bytes_def read_body_def bind_def on_buf_def assign_def
        throw_def readUint8_Cons readUint16_Cons)
qed


theorem read_unknown_constant_tag_witness:
  "readConstantPool_loop jvms_ConstantType 1 [None] [1, 0, 0, 2, 9] =
     (Inr [None, Some (CP_Utf8 1 0 [])], [2, 9])
   \<and> length [None, Some (CP_Utf8 1 0 [])] = 1 + nat 1
   \<and> (1 :: int) < int (unat (0 :: byte) * 256 + unat (3 :: byte)) - 1
   \<and> unat (2 :: byte) \<notin> known_tags jvms_ConstantType
   \<and> known_tags jvms_ConstantType = java8_constant_tags \<union> {19, 20}
   \<and> fst (read jvms_ConstantType no_fs new_reader
        (Src_bytes [0xCA, 0xFE, 0xBA, 0xBE, 0, 0, 0, 52, 0, 3, 1, 0, 0, 2, 9])) =
       Inl (Error_Unexpected_tag 2)"
proof -
  have run: "readConstantPool_loop jvms_ConstantType 1 [None] [1, 0, 0, 2, 9] =
     (Inr [None, Some (CP_Utf8 1 0 [])], [2, 9])"
    by (simp add: readConstantPool_loop.simps readConstantPoolEntry_def bind_def ret_def
        readUint8_Cons readUint16_Cons jvms_ConstantType_def collect_def)
  have len: "length [None, Some (CP_Utf8 1 0 [])] = 1 + nat 1" by simp
  have k: "(0 :: int) \<le> 1" by simp
  have cnt: "(1 :: int) < int (unat (0 :: byte) * 256 + unat (3 :: byte)) - 1" by simp
  have unk: "unat (2 :: byte) \<notin> known_tags jvms_ConstantType"
    by (simp add: known_tags_def jvms_ConstantType_def)
  have tags: "known_tags jvms_ConstantType = java8_constant_tags \<union> {19, 20}"
    by (auto simp: known_tags_def jvms_ConstantType_def java8_constant_tags_def)
  from read_unknown_constant_tag [OF run len k cnt unk, of no_fs new_reader 0 0 0 52]
    run len cnt unk tags
  show ?thesis by simp
qed

text \<open>
  C6: an input that begins CA FE BA BE 00 00 00 34 00 01 decodes, when the rest of it
  decodes, to a class file with major version 52, minor version 0 and a constant pool
  that holds only the placeholder at index 0; the shortest such input (all further counts
  0) does decode. Every input that begins CA FE BA AD fails with the error
  \<^verbatim>\<open>Invalid MAGIC value\<close>, with the four bytes consumed and an empty class file object
  left in the reader.
\<close>

theorem read_magic_and_version:
  "(read CT fs this
      (Src_bytes (0xCA # 0xFE # 0xBA # 0xBE # 0 # 0 # 0 # 0x34 # 0 # 1 # rest)) = (Inr cf, this')
      \<longrightarrow> major_version cf = Some 52 \<and> minor_version cf = Some 0
          \<and> constant_pool_count cf = Some 1 \<and> constant_pool cf = Some [None])
   \<and> read CT fs this
        (Src_bytes [0xCA, 0xFE, 0xBA, 0xBE, 0, 0, 0, 0x34, 0, 1,
                    0, 0x21, 0, 0, 0, 0, 0, 0, 0, 0, 0, 0, 0, 0]) =
       (Inr \<lparr>minor_version = Some 0, major_version = Some 52, constant_pool_count = Some 1,
              constant_pool = Some [None], access_flags = Some 33, this_class = Some 0,
              super_class = Some 0, interfaces_count = Some 0, interfaces = Some [],
              fields_count = Some 0, fields_arr = Some [], methods_count = Some 0,
              methods = Some [], attributes_count = Some 0, attributes = Some []\<rparr>,
        this\<lparr>buf := None, classFile := None\<rparr>)
   \<and> read CT fs this (Src_bytes (0xCA # 0xFE # 0xBA # 0xAD # rest)) =
       (Inl Error_Invalid_MAGIC, this\<lparr>buf := Some rest, classFile := Some new_ClassFile\<rparr>)"
proof -
  have p1: "read CT fs this
      (Src_bytes (0xCA # 0xFE # 0xBA # 0xBE # 0 # 0 # 0 # 0x34 # 0 # 1 # rest)) = (Inr cf, this')
      \<longrightarrow> major_version cf = Some 52 \<and> minor_version cf = Some 0
          \<and> constant_pool_count cf = Some 1 \<and> constant_pool cf = Some [None]"
    by (auto simp: read_def read_bytes_def read_body_def bind_def on_buf_def assign_def
        throw_def ret_def readUint8_Cons readUint16_Cons readConstantPool_def
        readConstantPool_loop.simps [of CT 0] new_ClassFile_def
        split: prod.splits sum.splits)
  have p2: "read CT fs this
        (Src_bytes [0xCA, 0xFE, 0xBA, 0xBE, 0, 0, 0, 0x34, 0, 1,
                    0, 0x21, 0, 0, 0, 0, 0, 0, 0, 0, 0, 0, 0, 0]) =
       (Inr \<lparr>minor_version = Some 0, major_version = Some 52, constant_pool_count = Some 1,
              constant_pool = Some [None], access_flags = Some 33, this_class = Some 0,
              super_class = Some 0, interfaces_count = Some 0, interfaces = Some [],
              fields_count = Some 0, fields_arr = Some [], methods_count = Some 0,
              methods = Some [], attributes_count = Some 0, attributes = Some []\<rparr>,
        this\<lparr>buf := None, classFile := None\<rparr>)"
    by (simp add: read_def read_bytes_def read_body_def bind_def on_buf_def assign_def
        throw_def ret_def readUint8_Cons readUint16_Cons readConstantPool_def
        readConstantPool_loop.simps [of CT 0] new_ClassFile_def readInterfaces_def
        readCommonFieldMethodArray_def readAttributeInfoArray_def collect_def
        readAttributeInfoArray_loop.simps [of _ 0])
  have p3: "read CT fs this (Src_bytes (0xCA # 0xFE # 0xBA # 0xAD # rest)) =
       (Inl Error_Invalid_MAGIC, this\<lparr>buf := Some rest, classFile := Some new_ClassFile\<rparr>)"
    by (simp add: read_def read_bytes_def read_body_def bind_def on_buf_def throw_def
        readUint8_Cons)
  show ?thesis
    by (rule conjI [OF p1 conjI [OF p2 p3]])
qed

theorem read_magic_and_version_witness:
  "read jvms_ConstantType no_fs new_reader
      (Src_bytes [0xCA, 0xFE, 0xBA, 0xBE, 0, 0, 0, 0x34, 0, 1,
                  0, 0x21, 0, 0, 0, 0, 0, 0, 0, 0, 0, 0, 0, 0]) =
     (Inr \<lparr>minor_version = Some 0, major_version = Some 52, constant_pool_count = Some 1,
            constant_pool = Some [None], access_flags = Some 33, this_class = Some 0,
            super_class = Some 0, interfaces_count = Some 0, interfaces = Some [],
            fields_count = Some 0, fields_arr = Some [], methods_count = Some 0,
            methods = Some [], attributes_count = Some 0, attributes = Some []\<rparr>,
      new_reader)
   \<and> major_version \<lparr>minor_version = Some 0, major_version = Some 52,
            constant_pool_count = Some 1,
            constant_pool = Some [None], access_flags = Some 33, this_class = Some 0,
            super_class = Some 0, interfaces_count = Some 0, interfaces = Some [],
            fields_count = Some 0, fields_arr = Some [], methods_count = Some 0,
            methods = Some [], attributes_count = Some 0, attributes = Some []\<rparr> = Some 52"
  using read_magic_and_version [of jvms_ConstantType no_fs new_reader
      "[0, 0x21, 0, 0, 0, 0, 0, 0, 0, 0, 0, 0, 0, 0]"]
  by (simp add: new_reader_def)

end
